theory Spec2Isabelle
  imports Main "HOL-Library.Word"
begin

section \<open>JavaScript values and arrays\<close>

text \<open>
  Nodes are compared by reference only, so a node is a value of an arbitrary type \<open>'a\<close>
  and reference equality is equality. An array element, a variable or an argument is a
  \<open>jsval\<close>: a read outside an array gives \<open>Undefined\<close>, \<open>nextSibling\<close> of a last child
  gives \<open>Null\<close>.
\<close>

datatype 'a jsval = Undefined | Null | Node 'a

datatype error = TypeError | NotFoundError

text \<open>\<open>xs[i]\<close>: a read outside the array (also at a negative index) is \<open>undefined\<close>.\<close>

definition at :: "'a jsval list \<Rightarrow> int \<Rightarrow> 'a jsval" where
  "at xs i = (if 0 \<le> i \<and> i < int (length xs) then xs ! nat i else Undefined)"

text \<open>
  \<open>xs[i] = v\<close>: a write past the end extends the array, the gap reading \<open>undefined\<close>.
  A write at a negative index leaves the elements as they are (every write of
  \<open>reconcile\<close> is at an index that is at least \<open>start\<close>).
\<close>

definition put :: "'a jsval list \<Rightarrow> int \<Rightarrow> 'a jsval \<Rightarrow> 'a jsval list" where
  "put xs i v =
     (if i < 0 then xs
      else if i < int (length xs) then xs[nat i := v]
      else xs @ replicate (nat i - length xs) Undefined @ [v])"

text \<open>
  \<open>xs.splice(st, dc, ...items)\<close>: the start is clamped into the array (a negative one
  counts from the end), the delete count into what is left. The result is the removed
  elements and the array afterwards.
\<close>

definition splice :: "'b list \<Rightarrow> int \<Rightarrow> int \<Rightarrow> 'b list \<Rightarrow> 'b list \<times> 'b list" where
  "splice xs st dc items =
     (let len = int (length xs);
          s = (if st < 0 then max (len + st) 0 else min st len);
          d = min (max dc 0) (len - s)
      in (take (nat d) (drop (nat s) xs),
          take (nat s) xs @ items @ drop (nat (s + d)) xs))"

text \<open>\<open>xs.slice(a, b)\<close>.\<close>

definition slice :: "'b list \<Rightarrow> int \<Rightarrow> int \<Rightarrow> 'b list" where
  "slice xs a b =
     (let len = int (length xs);
          k = (if a < 0 then max (len + a) 0 else min a len);
          e = (if b < 0 then max (len + b) 0 else min b len)
      in take (nat (e - k)) (drop (nat k) xs))"

text \<open>\<open>removed[0]\<close> of a spliced-out array.\<close>

definition first :: "'a jsval list \<Rightarrow> 'a jsval" where
  "first xs = (case xs of [] \<Rightarrow> Undefined | x # _ \<Rightarrow> x)"

fun index_from :: "'b list \<Rightarrow> 'b \<Rightarrow> nat \<Rightarrow> int" where
  "index_from [] x n = - 1"
| "index_from (y # ys) x n = (if y = x then int n else index_from ys x (Suc n))"

text \<open>\<open>xs.indexOf(x, from)\<close>: \<open>-1\<close> when \<open>x\<close> is not found at or after \<open>from\<close>.\<close>

definition indexOf :: "'b list \<Rightarrow> 'b \<Rightarrow> int \<Rightarrow> int" where
  "indexOf xs x from =
     (let len = int (length xs);
          k = (if from < 0 then max (len + from) 0 else from)
      in if k \<ge> len then - 1 else index_from (drop (nat k) xs) x (nat k))"

section \<open>The node sink\<close>

text \<open>
  The parent node is its list of live children together with the log of the mutations
  called on it. A node that is not a child of the parent has no sibling. The three
  mutations follow the DOM: the reference child must be a child of the parent
  (\<open>NotFoundError\<close> otherwise), an argument that is not a node is a \<open>TypeError\<close>, and a
  node that is inserted is first taken out of the place where it was.
\<close>

datatype 'a dom_op = InsertBefore 'a "'a jsval" | RemoveChild 'a | ReplaceChild 'a 'a

record 'a sink =
  children :: "'a list"
  ops :: "'a dom_op list"

type_synonym ('a, 'r) res = "(error \<times> 'a sink) + 'r"

definition bindE :: "'e + 'x \<Rightarrow> ('x \<Rightarrow> 'e + 'y) \<Rightarrow> 'e + 'y" where
  "bindE m f = (case m of Inl e \<Rightarrow> Inl e | Inr x \<Rightarrow> f x)"

fun sibling_after :: "'a \<Rightarrow> 'a list \<Rightarrow> 'a jsval" where
  "sibling_after x [] = Null"
| "sibling_after x [y] = Null"
| "sibling_after x (y # z # zs) = (if x = y then Node z else sibling_after x (z # zs))"

definition nextSibling :: "'a sink \<Rightarrow> 'a jsval \<Rightarrow> ('a, 'a jsval) res" where
  "nextSibling p v =
     (case v of Node n \<Rightarrow> Inr (sibling_after n (children p)) | _ \<Rightarrow> Inl (TypeError, p))"

fun insert_before :: "'a \<Rightarrow> 'a \<Rightarrow> 'a list \<Rightarrow> 'a list" where
  "insert_before c r [] = [c]"
| "insert_before c r (y # ys) = (if y = r then c # y # ys else y # insert_before c r ys)"

definition insertBefore :: "'a sink \<Rightarrow> 'a jsval \<Rightarrow> 'a jsval \<Rightarrow> ('a, 'a sink) res" where
  "insertBefore p child ref =
     (case child of
        Node c \<Rightarrow>
          (case ref of
             Node r \<Rightarrow>
               if r \<notin> set (children p) then Inl (NotFoundError, p)
               else Inr \<lparr>children = (if c = r then children p
                                      else insert_before c r (remove1 c (children p))),
                         ops = ops p @ [InsertBefore c ref]\<rparr>
           | _ \<Rightarrow> Inr \<lparr>children = remove1 c (children p) @ [c],
                       ops = ops p @ [InsertBefore c ref]\<rparr>)
      | _ \<Rightarrow> Inl (TypeError, p))"

definition removeChild :: "'a sink \<Rightarrow> 'a jsval \<Rightarrow> ('a, 'a sink) res" where
  "removeChild p child =
     (case child of
        Node c \<Rightarrow>
          if c \<notin> set (children p) then Inl (NotFoundError, p)
          else Inr \<lparr>children = remove1 c (children p), ops = ops p @ [RemoveChild c]\<rparr>
      | _ \<Rightarrow> Inl (TypeError, p))"

definition replaceChild :: "'a sink \<Rightarrow> 'a jsval \<Rightarrow> 'a jsval \<Rightarrow> ('a, 'a sink) res" where
  "replaceChild p newChild oldChild =
     (case newChild of
        Node n \<Rightarrow>
          (case oldChild of
             Node c \<Rightarrow>
               if c \<notin> set (children p) then Inl (NotFoundError, p)
               else Inr \<lparr>children = (if n = c then children p
                                      else map (\<lambda>x. if x = c then n else x)
                                             (remove1 n (children p))),
                         ops = ops p @ [ReplaceChild n c]\<rparr>
           | _ \<Rightarrow> Inl (TypeError, p))
      | _ \<Rightarrow> Inl (TypeError, p))"

section \<open>Loops of the reconciler\<close>

text \<open>
  \<open>for (j = a; j < b; ++j) body(j)\<close>, with bounds that the body leaves alone:
  \<open>forE (nat (b - a)) a body\<close>. The first exception ends the loop.
\<close>

fun forE :: "nat \<Rightarrow> int \<Rightarrow> (int \<Rightarrow> 's \<Rightarrow> 'e + 's) \<Rightarrow> 's \<Rightarrow> 'e + 's" where
  "forE 0 j f s = Inr s"
| "forE (Suc n) j f s = bindE (f j s) (forE n (j + 1) f)"

text \<open>\<open>while (n < bound && P(n)) ++n\<close>, the value of \<open>n\<close> afterwards.\<close>

function count_while :: "(int \<Rightarrow> bool) \<Rightarrow> int \<Rightarrow> int \<Rightarrow> int" where
  "count_while P bound n = (if n < bound \<and> P n then count_while P bound (n + 1) else n)"
  by pat_completeness auto
termination
  by (relation "measure (\<lambda>(P, bound, n). nat (bound - n))") auto

declare count_while.simps [simp del]

section \<open>The state of \<open>reconcile\<close>\<close>

text \<open>
  The variables of \<open>reconcile\<close> that live across iterations of its main loop, with the
  parent and the \<open>current\<close> array, which it mutates. The other variables (\<open>i\<close>, \<open>j\<close>,
  \<open>k\<close>, \<open>d\<close>, \<open>seq\<close>, \<open>cSeq\<close>, \<open>target\<close>, \<open>cNodes\<close>) are written before they are read in
  each iteration and are local to the steps below. The \<open>Map\<close> of next indexes is a map,
  the \<open>Set\<close> of previous nodes the list of its members.
\<close>

record 'a rstate =
  parent :: "'a sink"
  current :: "'a jsval list"
  currentEnd :: int
  nextEnd :: int
  start :: int
  ins :: int
  advancedDiff :: bool
  lastCurrent :: "'a jsval"
  lastNext :: "'a jsval"
  nextIndexes :: "'a jsval \<Rightarrow> int option"
  prevNodes :: "'a jsval list"

datatype 'a outcome = Continue "'a rstate" | Return "'a rstate"

section \<open>Both modes: prefix, suffix, swap\<close>

definition skip_prefix :: "'a rstate \<Rightarrow> 'a rstate" where
  "skip_prefix s = s\<lparr>start := start s + 1\<rparr>"

definition skip_suffix :: "'a rstate \<Rightarrow> 'a rstate" where
  "skip_suffix s =
     s\<lparr>currentEnd := currentEnd s - 1, nextEnd := nextEnd s - 1,
       ins := (if ins s > 0 then ins s - 1 else ins s)\<rparr>"

definition swap_ends :: "'a jsval list \<Rightarrow> 'a rstate \<Rightarrow> ('a, 'a rstate) res" where
  "swap_ends nxt s =
     (let ce = currentEnd s - 1; ne = nextEnd s - 1; st = start s; cur = current s in
      bindE (nextSibling (parent s) (at cur ce)) (\<lambda>target.
      bindE (insertBefore (parent s) (at nxt st) (at cur st)) (\<lambda>p1.
      bindE (if ne - st > 1 \<and> ce - st > 1 then insertBefore p1 (at nxt ne) target
             else Inr p1) (\<lambda>p2.
      Inr (s\<lparr>parent := p2,
             current := put (put cur ce (at nxt ne)) st (at nxt st),
             currentEnd := ce, nextEnd := ne, start := st + 1\<rparr>)))))"

section \<open>Initial optimization: single moves and fast paths\<close>

definition move_rtl :: "'a jsval list \<Rightarrow> 'a rstate \<Rightarrow> ('a, 'a rstate) res" where
  "move_rtl nxt s =
     (let st = start s; cur = current s in
      bindE (insertBefore (parent s) (at nxt st) (at cur st)) (\<lambda>p1.
      let (removed, cur1) = splice cur (currentEnd s - 1) 1 [];
          cur2 = snd (splice cur1 st 0 [first removed])
      in Inr (s\<lparr>parent := p1, current := cur2, start := st + 1\<rparr>)))"

definition move_ltr :: "'a jsval list \<Rightarrow> 'a rstate \<Rightarrow> ('a, 'a rstate) res" where
  "move_ltr nxt s =
     (let ne = nextEnd s - 1; ce = currentEnd s - 1; cur = current s in
      bindE (nextSibling (parent s) (at cur ce)) (\<lambda>sib.
      bindE (insertBefore (parent s) (at nxt ne) sib) (\<lambda>p1.
      let (removed, cur1) = splice cur (start s) 1 [];
          cur2 = snd (splice cur1 ce 0 [first removed])
      in Inr (s\<lparr>parent := p1, current := cur2, nextEnd := ne, currentEnd := ce\<rparr>))))"

text \<open>
  The loop of \<open>subsequenceIndex\<close>: whether some element of the shorter list differs from
  the element of the longer list at its place (the function then returns \<open>-1\<close>).
\<close>

function subseq_mismatch ::
  "'a jsval list \<Rightarrow> int \<Rightarrow> 'a jsval list \<Rightarrow> int \<Rightarrow> int \<Rightarrow> bool" where
  "subseq_mismatch moreNodes moreStart lessNodes lessStart lessEnd =
     (if lessStart < lessEnd
      then (if at moreNodes moreStart \<noteq> at lessNodes lessStart then True
            else subseq_mismatch moreNodes (moreStart + 1) lessNodes (lessStart + 1) lessEnd)
      else False)"
  by pat_completeness auto
termination
  by (relation "measure (\<lambda>(m, ms, l, ls, le). nat (le - ls))") auto

declare subseq_mismatch.simps [simp del]

definition subsequenceIndex ::
  "'a jsval list \<Rightarrow> int \<Rightarrow> int \<Rightarrow> 'a jsval list \<Rightarrow> int \<Rightarrow> int \<Rightarrow> int" where
  "subsequenceIndex moreNodes moreStart moreEnd lessNodes lessStart lessEnd =
     (let i = indexOf moreNodes (at lessNodes lessStart) moreStart in
      if i > - 1 \<and> moreEnd - (i + 1) \<ge> lessEnd - lessStart
      then (if subseq_mismatch moreNodes (i + 1) lessNodes (lessStart + 1) lessEnd
            then - 1 else i)
      else i)"

definition one_to_many ::
  "'a sink \<Rightarrow> 'a jsval list \<Rightarrow> 'a jsval list \<Rightarrow> int \<Rightarrow> int \<Rightarrow> int \<Rightarrow> int
     \<Rightarrow> ('a, bool \<times> 'a sink) res" where
  "one_to_many p cur nxt currentStart currentEnd' nextStart nextEnd' =
     (if currentEnd' - currentStart = 1 \<or> nextEnd' - nextStart = 1
      then
        bindE (forE (nat (nextEnd' - nextStart)) nextStart
                 (\<lambda>j q. insertBefore q (at nxt j) (at cur currentStart)) p) (\<lambda>p1.
        bindE (forE (nat (currentEnd' - currentStart)) currentStart
                 (\<lambda>j q. removeChild q (at cur j)) p1) (\<lambda>p2.
        Inr (True, p2)))
      else Inr (False, p))"

definition fastPaths ::
  "'a sink \<Rightarrow> 'a jsval list \<Rightarrow> 'a jsval list \<Rightarrow> int \<Rightarrow> int \<Rightarrow> int \<Rightarrow> int
     \<Rightarrow> ('a, bool \<times> 'a sink) res" where
  "fastPaths p cur nxt currentStart currentEnd' nextStart nextEnd' =
     (let currentLeft = currentEnd' - currentStart; nextLeft = nextEnd' - nextStart in
      if currentLeft < nextLeft then
        (let i = subsequenceIndex nxt nextStart nextEnd' cur currentStart currentEnd' in
         if i > - 1 then
           bindE (forE (nat (i - nextStart)) nextStart
                    (\<lambda>j q. insertBefore q (at nxt j) (at cur currentStart)) p) (\<lambda>p1.
           bindE (nextSibling p1 (at cur (currentEnd' - 1))) (\<lambda>target.
           bindE (forE (nat (nextEnd' - (i + currentLeft))) (i + currentLeft)
                    (\<lambda>j q. insertBefore q (at nxt j) target) p1) (\<lambda>p2.
           Inr (True, p2))))
         else one_to_many p cur nxt currentStart currentEnd' nextStart nextEnd')
      else if nextLeft < currentLeft then
        (let i = subsequenceIndex cur currentStart currentEnd' nxt nextStart nextEnd' in
         if i > - 1 then
           bindE (forE (nat (i - currentStart)) currentStart
                    (\<lambda>j q. removeChild q (at cur j)) p) (\<lambda>p1.
           bindE (forE (nat (currentEnd' - (i + nextLeft))) (i + nextLeft)
                    (\<lambda>j q. removeChild q (at cur j)) p1) (\<lambda>p2.
           Inr (True, p2)))
         else one_to_many p cur nxt currentStart currentEnd' nextStart nextEnd')
      else one_to_many p cur nxt currentStart currentEnd' nextStart nextEnd')"

definition init_advanced :: "'a jsval list \<Rightarrow> 'a rstate \<Rightarrow> 'a rstate" where
  "init_advanced nxt s =
     s\<lparr>nextIndexes := fold (\<lambda>j m. m(at nxt j \<mapsto> j)) [start s..nextEnd s - 1] Map.empty,
       prevNodes := slice (current s) (start s) (currentEnd s),
       advancedDiff := True\<rparr>"

section \<open>Advanced diff mode: the ends\<close>

text \<open>
  The two conditions on the ends assign inside their conjunctions:
  \<open>lastNext !== next[(i = nextEnd - 1)] && !prevNodes.has((lastNext = next[i]))\<close> and
  \<open>ins === 0 && lastCurrent !== current[(j = currentEnd - 1)] &&
  !nextIndexes.has((lastCurrent = current[j]))\<close>. Each gives its truth value and the state
  with the assignment that was reached.
\<close>

definition next_end_changed :: "'a jsval list \<Rightarrow> 'a rstate \<Rightarrow> bool \<times> 'a rstate" where
  "next_end_changed nxt s =
     (let v = at nxt (nextEnd s - 1) in
      if lastNext s \<noteq> v then (v \<notin> set (prevNodes s), s\<lparr>lastNext := v\<rparr>) else (False, s))"

definition current_end_changed :: "'a rstate \<Rightarrow> bool \<times> 'a rstate" where
  "current_end_changed s =
     (if ins s = 0 then
        (let v = at (current s) (currentEnd s - 1) in
         if lastCurrent s \<noteq> v then (nextIndexes s v = None, s\<lparr>lastCurrent := v\<rparr>)
         else (False, s))
      else (False, s))"

function replace_run ::
  "'a jsval list \<Rightarrow> 'a jsval list \<Rightarrow> ('a jsval \<Rightarrow> int option) \<Rightarrow> int \<Rightarrow> int \<Rightarrow> int \<Rightarrow> int
     \<Rightarrow> 'a sink \<times> 'a jsval list \<Rightarrow> ('a, 'a sink \<times> 'a jsval list \<times> int) res" where
  "replace_run nxt pn ni st i j seq pc =
     (if i - seq \<ge> st \<and> j - seq \<ge> st \<and> at nxt (i - seq) \<notin> set pn
         \<and> ni (at (snd pc) (j - seq)) = None
      then (case replaceChild (fst pc) (at nxt (i - seq)) (at (snd pc) (j - seq)) of
              Inl e \<Rightarrow> Inl e
            | Inr p1 \<Rightarrow>
                replace_run nxt pn ni st i j (seq + 1)
                  (p1, put (snd pc) (j - seq) (at nxt (i - seq))))
      else Inr (fst pc, snd pc, seq))"
  by pat_completeness auto
termination
  by (relation "measure (\<lambda>(nxt, pn, ni, st, i, j, seq, pc). nat (j - seq - st + 1))") auto

declare replace_run.simps [simp del]

definition replace_ends :: "'a jsval list \<Rightarrow> 'a rstate \<Rightarrow> ('a, 'a rstate \<times> int) res" where
  "replace_ends nxt s =
     (let i = nextEnd s - 1; j = currentEnd s - 1; cur = current s in
      bindE (replaceChild (parent s) (at nxt i) (at cur j)) (\<lambda>p1.
      bindE (replace_run nxt (prevNodes s) (nextIndexes s) (start s) i j 1
               (p1, put cur j (at nxt i))) (\<lambda>(p2, cur2, seq).
      let ce = currentEnd s - seq in
      Inr (s\<lparr>parent := p2, current := cur2, currentEnd := ce, lastCurrent := at cur2 ce\<rparr>,
           seq))))"

function insert_run ::
  "'a jsval list \<Rightarrow> 'a jsval list \<Rightarrow> int \<Rightarrow> int \<Rightarrow> int \<Rightarrow> 'a jsval \<Rightarrow> 'a sink
     \<Rightarrow> ('a, 'a sink \<times> int) res" where
  "insert_run nxt pn st i seq target p =
     (if i - seq \<ge> st \<and> at nxt (i - seq) \<notin> set pn
      then (case insertBefore p (at nxt (i - seq)) target of
              Inl e \<Rightarrow> Inl e
            | Inr p1 \<Rightarrow> insert_run nxt pn st i (seq + 1) (at nxt (i - seq)) p1)
      else Inr (p, seq))"
  by pat_completeness auto
termination
  by (relation "measure (\<lambda>(nxt, pn, st, i, seq, target, p). nat (i - seq - st + 1))") auto

declare insert_run.simps [simp del]

definition insert_ends :: "'a jsval list \<Rightarrow> 'a rstate \<Rightarrow> ('a, 'a rstate \<times> int) res" where
  "insert_ends nxt s =
     (let i = nextEnd s - 1; cur = current s in
      bindE (nextSibling (parent s) (at cur (currentEnd s - 1))) (\<lambda>target.
      bindE (insertBefore (parent s) (at nxt i) target) (\<lambda>p1.
      bindE (insert_run nxt (prevNodes s) (start s) i 1 (at nxt i) p1) (\<lambda>(p2, seq).
      Inr (s\<lparr>parent := p2,
             current := snd (splice cur (currentEnd s) 0
                               (slice nxt (nextEnd s - seq) (nextEnd s)))\<rparr>,
           seq)))))"

function remove_run ::
  "('a jsval \<Rightarrow> int option) \<Rightarrow> 'a jsval list \<Rightarrow> int \<Rightarrow> int \<Rightarrow> int \<Rightarrow> 'a sink
     \<Rightarrow> ('a, 'a sink \<times> int) res" where
  "remove_run ni cur st j seq p =
     (if j - seq \<ge> st \<and> ni (at cur (j - seq)) = None
      then (case removeChild p (at cur (j - seq)) of
              Inl e \<Rightarrow> Inl e
            | Inr p1 \<Rightarrow> remove_run ni cur st j (seq + 1) p1)
      else Inr (p, seq))"
  by pat_completeness auto
termination
  by (relation "measure (\<lambda>(ni, cur, st, j, seq, p). nat (j - seq - st + 1))") auto

declare remove_run.simps [simp del]

definition remove_ends :: "'a rstate \<Rightarrow> ('a, 'a rstate) res" where
  "remove_ends s =
     (let j = currentEnd s - 1; cur = current s in
      bindE (removeChild (parent s) (at cur j)) (\<lambda>p1.
      bindE (remove_run (nextIndexes s) cur (start s) j 1 p1) (\<lambda>(p2, seq).
      let cur2 = snd (splice cur (nextEnd s - seq) seq []);
          ce = currentEnd s - seq
      in Inr (s\<lparr>parent := p2, current := cur2, currentEnd := ce,
                lastCurrent := at cur2 ce\<rparr>))))"

section \<open>Advanced diff mode: the three-step rearrange\<close>

text \<open>
  Step 1 gives \<open>i\<close> (the index of the next node in the current list, or \<open>-1\<close>), \<open>seq\<close>,
  \<open>k\<close> (the index of the current node in the next list, or \<open>-1\<close>) and \<open>cSeq\<close>. In
  \<open>nextIndexes.get(currentNode) || -1\<close> an index \<open>0\<close> is falsy and gives \<open>-1\<close> too.
\<close>

definition analyze :: "'a jsval list \<Rightarrow> 'a rstate \<Rightarrow> int \<times> int \<times> int \<times> int" where
  "analyze nxt s =
     (let cur = current s; st = start s;
          currentNode = at cur st; nextNode = at nxt st;
          (i, seq) =
            (if nextNode \<in> set (prevNodes s) then
               (let i = indexOf cur nextNode (st + 1) in
                (i, count_while (\<lambda>q. at cur (i + q) = at nxt (st + q)) (currentEnd s - i) 1))
             else
               (- 1, count_while (\<lambda>q. at nxt (st + q) \<notin> set (prevNodes s)) (nextEnd s - st) 1));
          cSeq0 = (if at nxt (st + seq) = currentNode \<or> (i > - 1 \<and> seq > i - st)
                   then 0 else (1::int));
          (k, cSeq) =
            (if cSeq0 > 0 then
               (let k = (case nextIndexes s currentNode of
                           None \<Rightarrow> - 1
                         | Some v \<Rightarrow> if v = 0 then - 1 else v)
                in if k > - 1
                   then (k, count_while (\<lambda>q. at nxt (k + q) = at cur (st + q)) (nextEnd s - k) 1)
                   else (k, count_while (\<lambda>q. nextIndexes s (at cur (st + q)) = None)
                              (currentEnd s - st) 1))
             else (- 1, cSeq0))
      in (i, seq, k, cSeq))"

text \<open>
  Step 2 returns the state with \<open>start\<close> advanced by \<open>seq\<close>, the nodes \<open>cNodes\<close> taken
  out of the current list for step 3 (\<open>None\<close> is \<open>null\<close>) and the value of \<open>cSeq\<close>
  afterwards; \<open>0\<close> means that the iteration ends here (the inner swap leaves by
  \<open>continue\<close> after \<open>start++\<close>, with \<open>seq = 1\<close>).
\<close>

definition rtl_phase ::
  "'a jsval list \<Rightarrow> 'a rstate \<Rightarrow> int \<Rightarrow> int \<Rightarrow> int \<Rightarrow> int
     \<Rightarrow> ('a, 'a rstate \<times> 'a jsval list option \<times> int) res" where
  "rtl_phase nxt s i seq k cSeq =
     (let cur = current s; st = start s;
          currentNode = at cur st; nextNode = at nxt st
      in
      if i > - 1 then
        (if seq = 1 then
           (if i = k \<and> cSeq = 1 then
              bindE (nextSibling (parent s) (at cur i)) (\<lambda>target.
              bindE (insertBefore (parent s) (at nxt st) (at cur st)) (\<lambda>p1.
              bindE (if i - st > 1 then insertBefore p1 (at nxt i) target else Inr p1) (\<lambda>p2.
              Inr (s\<lparr>parent := p2, current := put (put cur i (at nxt i)) st (at nxt st),
                     start := st + 1\<rparr>, None, 0))))
            else
              bindE (insertBefore (parent s) nextNode currentNode) (\<lambda>p1.
              let (r1, cur1) = splice cur i 1 [];
                  (cNodes, cur2) = splice cur1 st cSeq [first r1]
              in Inr (s\<lparr>parent := p1, current := cur2, start := st + seq\<rparr>,
                      Some cNodes, cSeq)))
         else if seq > i - st then
           bindE (nextSibling (parent s) (at cur (i - 1 + seq))) (\<lambda>target.
           bindE (forE (nat (i - st)) st (\<lambda>j q. insertBefore q (at cur j) target)
                    (parent s)) (\<lambda>p1.
           let (r1, cur1) = splice cur st (i - st) [];
               cur2 = snd (splice cur1 (st + seq) 0 r1)
           in Inr (s\<lparr>parent := p1, current := cur2, start := st + seq\<rparr>, None, cSeq)))
         else
           bindE (forE (nat seq) 0 (\<lambda>j q. insertBefore q (at nxt (st + j)) currentNode)
                    (parent s)) (\<lambda>p1.
           let (r1, cur1) = splice cur i seq [];
               (cNodes, cur2) = splice cur1 st cSeq r1
           in Inr (s\<lparr>parent := p1, current := cur2, start := st + seq\<rparr>,
                   Some cNodes, cSeq)))
      else if k = - 1 then
        (let j = max 0 (min seq cSeq) in
         bindE (forE (nat j) 0
                  (\<lambda>j pc. bindE (replaceChild (fst pc) (at nxt (st + j)) (at (snd pc) (st + j)))
                            (\<lambda>p1. Inr (p1, put (snd pc) (st + j) (at nxt (st + j)))))
                  (parent s, cur)) (\<lambda>(p1, cur1).
         if j < seq then
           bindE (nextSibling p1 (at cur1 (st + j - 1))) (\<lambda>target.
           bindE (forE (nat (seq - j)) j (\<lambda>j q. insertBefore q (at nxt (st + j)) target)
                    p1) (\<lambda>p2.
           let j' = seq in
           Inr (s\<lparr>parent := p2,
                  current := snd (splice cur1 (st + j') 0 (slice nxt (st + j') (st + seq))),
                  currentEnd := currentEnd s + (seq - j), start := st + seq\<rparr>, None, 0)))
         else if j < cSeq then
           bindE (forE (nat (cSeq - j)) j (\<lambda>j q. removeChild q (at cur1 (st + j))) p1) (\<lambda>p2.
           let j' = cSeq in
           Inr (s\<lparr>parent := p2,
                  current := snd (splice cur1 (st + j') (cSeq - j') []),
                  currentEnd := currentEnd s - (cSeq - j), start := st + seq\<rparr>, None, 0))
         else Inr (s\<lparr>parent := p1, current := cur1, start := st + seq\<rparr>, None, 0)))
      else
        bindE (forE (nat seq) 0 (\<lambda>j q. insertBefore q (at nxt (st + j)) currentNode)
                 (parent s)) (\<lambda>p1.
        let (cNodes, cur1) = splice cur st cSeq (slice nxt st (st + seq))
        in Inr (s\<lparr>parent := p1, current := cur1, currentEnd := currentEnd s + seq,
                  start := st + seq\<rparr>, Some cNodes, cSeq)))"

text \<open>
  The search of step 3 for the target index among the nodes already inserted after the
  current end: \<open>for (j = ...; j >= lo; --j) if (nextIndexes.get(current[j - seq]) < i)
  break\<close>. A missing index compares as \<open>undefined < i\<close>, which is false.
\<close>

function find_target ::
  "('a jsval \<Rightarrow> int option) \<Rightarrow> 'a jsval list \<Rightarrow> int \<Rightarrow> int \<Rightarrow> int \<Rightarrow> int \<Rightarrow> int" where
  "find_target ni cur seq i lo j =
     (if j \<ge> lo
      then (if (case ni (at cur (j - seq)) of None \<Rightarrow> False | Some v \<Rightarrow> v < i) then j
            else find_target ni cur seq i lo (j - 1))
      else j)"
  by pat_completeness auto
termination
  by (relation "measure (\<lambda>(ni, cur, seq, i, lo, j). nat (j - lo + 1))") auto

declare find_target.simps [simp del]

definition ltr_phase ::
  "'a rstate \<Rightarrow> 'a jsval \<Rightarrow> int \<Rightarrow> int \<Rightarrow> 'a jsval list option \<Rightarrow> ('a, 'a rstate) res" where
  "ltr_phase s currentNode k seq cNodes =
     (let cur = current s; st = start s; ce = currentEnd s in
      if k > - 1 then
        (let d0 = k - st; i0 = k + seq - 1;
             (i, d, ins') =
               (if i0 \<ge> ce \<or> (ins s \<noteq> 0 \<and> i0 \<ge> ce - ins s) then
                  (let j = find_target (nextIndexes s) cur seq i0 (ce - ins s)
                             (if i0 \<ge> ce then ce - 1 else i0)
                   in (j, j - seq + 1 - st, ins s + seq))
                else (i0, d0, ins s));
             s1 = s\<lparr>ins := ins'\<rparr>;
             k' = st + seq
         in
         if k' = ce then Inr s1
         else if seq = 1 then
           bindE (nextSibling (parent s) (at cur (i - seq))) (\<lambda>sib.
           bindE (insertBefore (parent s) currentNode sib) (\<lambda>p1.
           Inr (s1\<lparr>parent := p1, current := snd (splice cur i 0 [currentNode])\<rparr>)))
         else if seq > d \<or> seq > ce - k' then
           (let n = nat (min ce (k' + d) - k'); j = k' + int n in
            bindE (forE n k' (\<lambda>j q. insertBefore q (at cur (j - seq)) currentNode)
                     (parent s)) (\<lambda>p1.
            case cNodes of
              None \<Rightarrow> Inl (TypeError, p1)
            | Some cn \<Rightarrow> Inr (s1\<lparr>parent := p1, current := snd (splice cur (j - seq) 0 cn)\<rparr>)))
         else
           bindE (nextSibling (parent s) (at cur (i - seq))) (\<lambda>target.
           case cNodes of
             None \<Rightarrow> Inl (TypeError, parent s)
           | Some cn \<Rightarrow>
               bindE (forE (nat seq) 0 (\<lambda>j q. insertBefore q (at cn j) target)
                        (parent s)) (\<lambda>p1.
               Inr (s1\<lparr>parent := p1, current := snd (splice cur (i - seq + 1) 0 cn)\<rparr>))))
      else
        (case cNodes of
           None \<Rightarrow> Inl (TypeError, parent s)
         | Some cn \<Rightarrow>
             bindE (forE (nat seq) 0 (\<lambda>j q. removeChild q (at cn j)) (parent s)) (\<lambda>p1.
             Inr (s\<lparr>parent := p1, currentEnd := ce - seq\<rparr>))))"

definition rearrange :: "'a jsval list \<Rightarrow> 'a rstate \<Rightarrow> ('a, 'a rstate) res" where
  "rearrange nxt s =
     (let currentNode = at (current s) (start s);
          (i, seq, k, cSeq) = analyze nxt s
      in bindE (rtl_phase nxt s i seq k cSeq) (\<lambda>(s1, cNodes, cSeq1).
         if cSeq1 = 0 then Inr s1 else ltr_phase s1 currentNode k cSeq1 cNodes))"

section \<open>The main loop and the final pass\<close>

definition reconcile_step :: "'a jsval list \<Rightarrow> 'a rstate \<Rightarrow> ('a, 'a outcome) res" where
  "reconcile_step nxt s =
     (let cur = current s; st = start s; ce = currentEnd s; ne = nextEnd s in
      if at cur st = at nxt st then Inr (Continue (skip_prefix s))
      else if at cur (ce - 1) = at nxt (ne - 1) then Inr (Continue (skip_suffix s))
      else if ins s = 0 \<and> at cur st = at nxt (ne - 1) \<and> at nxt st = at cur (ce - 1)
      then bindE (swap_ends nxt s) (\<lambda>s'. Inr (Continue s'))
      else if \<not> advancedDiff s then
        (if at nxt st = at cur (ce - 1) then bindE (move_rtl nxt s) (\<lambda>s'. Inr (Continue s'))
         else if at cur st = at nxt (ne - 1)
         then bindE (move_ltr nxt s) (\<lambda>s'. Inr (Continue s'))
         else
           bindE (fastPaths (parent s) cur nxt st ce st ne) (\<lambda>(done, p1).
           if done then Inr (Return (s\<lparr>parent := p1\<rparr>))
           else Inr (Continue (init_advanced nxt (s\<lparr>parent := p1\<rparr>)))))
      else
        (let (a, s1) = next_end_changed nxt s in
         if a then
           (let (b, s2) = current_end_changed s1 in
            bindE (if b then replace_ends nxt s2 else insert_ends nxt s2) (\<lambda>(s3, seq).
            let ne' = nextEnd s3 - seq in
            Inr (Continue (s3\<lparr>nextEnd := ne', lastNext := at nxt ne'\<rparr>))))
         else
           (let (b, s2) = current_end_changed s1 in
            if b then bindE (remove_ends s2) (\<lambda>s3. Inr (Continue s3))
            else bindE (rearrange nxt s2) (\<lambda>s3. Inr (Continue s3)))))"

text \<open>
  The main loop, \<open>while (start < currentEnd && start < nextEnd)\<close>. The first argument
  bounds the number of iterations; \<open>None\<close> says that the bound was reached with the loop
  condition still true.
\<close>

fun reconcile_loop :: "nat \<Rightarrow> 'a jsval list \<Rightarrow> 'a rstate \<Rightarrow> ('a, 'a outcome) res option" where
  "reconcile_loop fuel nxt s =
     (if start s < currentEnd s \<and> start s < nextEnd s then
        (case fuel of
           0 \<Rightarrow> None
         | Suc n \<Rightarrow>
             (case reconcile_step nxt s of
                Inl e \<Rightarrow> Some (Inl e)
              | Inr (Return s') \<Rightarrow> Some (Inr (Return s'))
              | Inr (Continue s') \<Rightarrow> reconcile_loop n nxt s'))
      else Some (Inr (Continue s)))"

declare reconcile_loop.simps [simp del]

definition final_pass :: "'a jsval list \<Rightarrow> 'a rstate \<Rightarrow> ('a, 'a rstate) res" where
  "final_pass nxt s =
     (if start s = currentEnd s then
        (if start s = nextEnd s then Inr s
         else
           bindE (nextSibling (parent s) (at (current s) (currentEnd s - 1))) (\<lambda>target.
           bindE (forE (nat (nextEnd s - start s)) (start s)
                    (\<lambda>j q. insertBefore q (at nxt j) target) (parent s)) (\<lambda>p1.
           Inr (s\<lparr>parent := p1, start := max (start s) (nextEnd s)\<rparr>))))
      else if start s = nextEnd s then
        bindE (forE (nat (currentEnd s - start s)) (start s)
                 (\<lambda>j q. removeChild q (at (current s) j)) (parent s)) (\<lambda>p1.
        Inr (s\<lparr>parent := p1, start := max (start s) (currentEnd s)\<rparr>))
      else Inr s)"

definition init_state :: "'a sink \<Rightarrow> 'a list \<Rightarrow> 'a list \<Rightarrow> 'a rstate" where
  "init_state p cur nxt =
     \<lparr>parent = p, current = map Node cur,
      currentEnd = int (length cur), nextEnd = int (length nxt), start = 0, ins = 0,
      advancedDiff = False, lastCurrent = Null, lastNext = Null,
      nextIndexes = Map.empty, prevNodes = []\<rparr>"

text \<open>
  \<open>reconcile(parent, current, next)\<close> on two arrays of nodes. It returns nothing; what it
  leaves behind is the parent and the \<open>current\<close> array, or the exception with the parent
  at the time it was raised.
\<close>

definition reconcile ::
  "nat \<Rightarrow> 'a sink \<Rightarrow> 'a list \<Rightarrow> 'a list \<Rightarrow> ('a, 'a sink \<times> 'a jsval list) res option" where
  "reconcile fuel p cur nxt =
     (case reconcile_loop fuel (map Node nxt) (init_state p cur nxt) of
        None \<Rightarrow> None
      | Some (Inl e) \<Rightarrow> Some (Inl e)
      | Some (Inr (Return s)) \<Rightarrow> Some (Inr (parent s, current s))
      | Some (Inr (Continue s)) \<Rightarrow>
          Some (bindE (final_pass (map Node nxt) s) (\<lambda>s'. Inr (parent s', current s'))))"

section \<open>AsynX: the microtask queue of \<open>'asap'\<close> tasks\<close>





text \<open>\<open>xs[i] = v\<close> and \<open>xs[i]\<close> on an array whose missing elements read \<open>undefined\<close> (\<open>None\<close>).\<close>

definition assign :: "'b option list \<Rightarrow> nat \<Rightarrow> 'b option \<Rightarrow> 'b option list" where
  "assign xs i v =
     (if i < length xs then xs[i := v] else xs @ replicate (i - length xs) None @ [v])"

definition set_at :: "'b option list \<Rightarrow> nat \<Rightarrow> 'b \<Rightarrow> 'b option list" where
  "set_at xs i v = assign xs i (Some v)"

definition get_at :: "'b option list \<Rightarrow> nat \<Rightarrow> 'b option" where
  "get_at xs i = (if i < length xs then xs ! i else None)"












section \<open>\<open>indexArray\<close>\<close>

text \<open>
  The memoized state of one \<open>indexArray\<close>: the arrays \<open>items\<close>, \<open>mapped\<close>, \<open>disposers\<close>
  and \<open>sources\<close>, \<open>len\<close>, and the pool (\<open>None\<close> when pooling is off). \<open>root(mapper)\<close>
  makes a new root, whose disposer goes to \<open>disposers[i]\<close>, a new observable, which goes
  to \<open>sources[i]\<close>, and the value that \<open>mapFn\<close> returns, which goes to \<open>mapped[i]\<close>; the
  three are named by one fresh number, the identity of the entry. The mapping function
  is taken to return. A log records the calls that matter outside: an entry made by
  \<open>root(mapper)\<close>, an entry taken from the pool, a call \<open>sources[i](() => v)\<close>, a call of a
  disposer, an entry put into the pool, the fallback entry made.
\<close>

datatype 't item = Item 't | FALLBACK

datatype 't ievent =
    Constructed nat nat 't
  | Recycled nat
  | SourceCall nat nat 't
  | DisposerCalled nat nat
  | PoolSaved nat
  | FallbackMade nat

datatype ierror = NotCallable

record poolItem =
  p_mapped :: "nat option"
  p_disposer :: "nat option"
  p_source :: "nat option"

record 't iastate =
  items :: "'t item list"
  mapped :: "nat option list"
  disposers :: "nat option list"
  sources :: "nat option list"
  len :: nat
  pool :: "(int \<times> poolItem) list option"
  fresh :: nat
  ilog :: "'t ievent list"

text \<open>
  The options of the call: whether a fallback is given, and the pool limit
  (\<open>options.poolLimit || DEFAULT_POOL_LIMIT\<close>, a constant of a file that is not here).
\<close>

record iaopts =
  fallback :: bool
  poolLimit :: nat

text \<open>A \<open>Map\<close> with its insertion order, as a list of keys and values.\<close>

definition map_set :: "('k \<times> 'v) list \<Rightarrow> 'k \<Rightarrow> 'v \<Rightarrow> ('k \<times> 'v) list" where
  "map_set m k v =
     (if k \<in> fst ` set m then map (\<lambda>(k', v'). if k' = k then (k', v) else (k', v')) m
      else m @ [(k, v)])"

definition map_delete :: "('k \<times> 'v) list \<Rightarrow> 'k \<Rightarrow> ('k \<times> 'v) list" where
  "map_delete m k = filter (\<lambda>(k', v'). k' \<noteq> k) m"

text \<open>\<open>xs.length = n\<close>.\<close>

definition set_length :: "'b option list \<Rightarrow> nat \<Rightarrow> 'b option list" where
  "set_length xs n = take n xs @ replicate (n - length xs) None"

fun eachE :: "(nat \<Rightarrow> 's \<Rightarrow> 'e + 's) \<Rightarrow> nat list \<Rightarrow> 's \<Rightarrow> 'e + 's" where
  "eachE f [] s = Inr s"
| "eachE f (i # is) s = (case f i s of Inl e \<Rightarrow> Inl e | Inr s' \<Rightarrow> eachE f is s')"

definition saveInPool :: "iaopts \<Rightarrow> nat \<Rightarrow> nat \<Rightarrow> 't iastate \<Rightarrow> 't iastate" where
  "saveInPool opts newLen i s =
     (case pool s of
        None \<Rightarrow> s
      | Some p \<Rightarrow>
          (let p1 = (if poolLimit opts \<le> length p
                     then map_delete p (int newLen - 1 + int (length p)) else p);
               p2 = map_set p1 (int i)
                      \<lparr>p_mapped = get_at (mapped s) i, p_disposer = get_at (disposers s) i,
                       p_source = get_at (sources s) i\<rparr>
           in s\<lparr>pool := Some p2, ilog := ilog s @ [PoolSaved i]\<rparr>))"

definition call_disposer :: "nat \<Rightarrow> 't iastate \<Rightarrow> ierror + 't iastate" where
  "call_disposer i s =
     (case get_at (disposers s) i of
        None \<Rightarrow> Inl NotCallable
      | Some d \<Rightarrow> Inr (s\<lparr>ilog := ilog s @ [DisposerCalled i d]\<rparr>))"

definition recycleFromPool :: "nat \<Rightarrow> poolItem \<Rightarrow> 't iastate \<Rightarrow> 't iastate" where
  "recycleFromPool i poolItem s =
     s\<lparr>mapped := assign (mapped s) i (p_mapped poolItem),
       disposers := assign (disposers s) i (p_disposer poolItem),
       sources := assign (sources s) i (p_source poolItem),
       pool := map_option (\<lambda>p. map_delete p (int i)) (pool s),
       ilog := ilog s @ [Recycled i]\<rparr>"

definition mapper :: "'t \<Rightarrow> nat \<Rightarrow> 't iastate \<Rightarrow> 't iastate" where
  "mapper v i s =
     s\<lparr>disposers := set_at (disposers s) i (fresh s),
       sources := set_at (sources s) i (fresh s),
       mapped := set_at (mapped s) i (fresh s),
       fresh := fresh s + 1,
       ilog := ilog s @ [Constructed i (fresh s) v]\<rparr>"

text \<open>The body of the first loop, for the index \<open>i\<close> of the new items.\<close>

definition update_at :: "'t list \<Rightarrow> nat \<Rightarrow> 't iastate \<Rightarrow> ierror + 't iastate" where
  "update_at newItems i s =
     (if i < length (items s) \<and> items s ! i \<noteq> Item (newItems ! i) then
        (case get_at (sources s) i of
           None \<Rightarrow> Inl NotCallable
         | Some src \<Rightarrow> Inr (s\<lparr>ilog := ilog s @ [SourceCall i src (newItems ! i)]\<rparr>))
      else if i \<ge> length (items s) then
        (case (case pool s of None \<Rightarrow> None | Some p \<Rightarrow> map_of p (int i)) of
           Some poolItem \<Rightarrow> Inr (recycleFromPool i poolItem s)
         | None \<Rightarrow> Inr (mapper (newItems ! i) i s))
      else Inr s)"

text \<open>The body of the second loop, for an index past the new items.\<close>

definition remove_at :: "iaopts \<Rightarrow> nat \<Rightarrow> nat \<Rightarrow> 't iastate \<Rightarrow> ierror + 't iastate" where
  "remove_at opts newLen i s =
     (if pool s \<noteq> None then Inr (saveInPool opts newLen i s) else call_disposer i s)"

text \<open>
  One run of the function that \<open>indexArray\<close> returns, for the list \<open>newItems\<close> that
  \<open>list()\<close> gives. The mapped array that it returns is \<open>mapped\<close> of the result.
\<close>

definition index_update :: "iaopts \<Rightarrow> 't list \<Rightarrow> 't iastate \<Rightarrow> ierror + 't iastate" where
  "index_update opts newItems s =
     (if length newItems = 0 then
        bindE (if len s \<noteq> 0 then
                 bindE (if pool s \<noteq> None
                        then Inr (fold (saveInPool opts 0) [0..<len s] s)
                        else eachE call_disposer [0..<length (disposers s)] s) (\<lambda>s1.
                 Inr (s1\<lparr>disposers := [], items := [], mapped := [], len := 0,
                         sources := []\<rparr>))
               else Inr s) (\<lambda>s2.
        if fallback opts then
          Inr (s2\<lparr>items := [FALLBACK],
                  disposers := set_at (disposers s2) 0 (fresh s2),
                  mapped := set_at (mapped s2) 0 (fresh s2),
                  len := 1, fresh := fresh s2 + 1,
                  ilog := ilog s2 @ [FallbackMade (fresh s2)]\<rparr>)
        else Inr s2)
      else
        bindE (if items s \<noteq> [] \<and> hd (items s) = FALLBACK then
                 bindE (call_disposer 0 s) (\<lambda>s1.
                 Inr (s1\<lparr>disposers := [], items := [], mapped := [], len := 0\<rparr>))
               else Inr s) (\<lambda>s2.
        bindE (eachE (update_at newItems) [0..<length newItems] s2) (\<lambda>s3.
        bindE (eachE (remove_at opts (length newItems))
                 [length newItems..<length (items s3)] s3) (\<lambda>s4.
        Inr (s4\<lparr>len := length newItems,
                sources := set_length (sources s4) (length newItems),
                disposers := set_length (disposers s4) (length newItems),
                items := map Item newItems,
                mapped := take (length newItems) (mapped s4)\<rparr>)))))"

text \<open>
  What a run of \<open>indexArray\<close> from the items \<open>prev\<close> to the items \<open>nxt\<close> may do, event by
  event: a source is called only at a position of the common prefix whose value changed,
  with the source of that position and the new value; an entry is made or recycled only
  at a position past the old items; a disposer is called or an entry pooled only at a
  position past the new items; no fallback is made.
\<close>

definition good_event :: "'t list \<Rightarrow> 't list \<Rightarrow> 't iastate \<Rightarrow> 't ievent \<Rightarrow> bool" where
  "good_event prev nxt s e =
     (case e of
        SourceCall i src v \<Rightarrow>
          i < min (length prev) (length nxt) \<and> prev ! i \<noteq> nxt ! i \<and>
          sources s ! i = Some src \<and> v = nxt ! i
      | Constructed i n v \<Rightarrow> length prev \<le> i \<and> i < length nxt
      | Recycled i \<Rightarrow> length prev \<le> i \<and> i < length nxt
      | DisposerCalled i d \<Rightarrow> length nxt \<le> i \<and> i < length prev
      | PoolSaved i \<Rightarrow> length nxt \<le> i \<and> i < length prev
      | FallbackMade n \<Rightarrow> False)"

text \<open>The state \<open>s1\<close> inside a run that started in \<open>s\<close>: the old entries are in place.\<close>

definition kept :: "'t list \<Rightarrow> 't list \<Rightarrow> 't iastate \<Rightarrow> 't iastate \<Rightarrow> 't ievent list \<Rightarrow> bool" where
  "kept prev nxt s s1 evs \<longleftrightarrow>
     items s1 = items s \<and>
     take (length prev) (mapped s1) = mapped s \<and>
     take (length prev) (sources s1) = sources s \<and>
     take (length prev) (disposers s1) = disposers s \<and>
     ilog s1 = ilog s @ evs \<and> (\<forall>e\<in>set evs. good_event prev nxt s e)"


section \<open>The reactive graph: nodes, queues and globals\<close>

unbundle bit_operations_syntax

text \<open>
  The state flags of \<open>enums.ts\<close> are bits of a number, tested with \<open>&\<close> and set with
  \<open>|=\<close>; they stay bits of an \<open>int\<close> here.
\<close>

definition Actual :: int where "Actual = 0"
definition Stale :: int where "Stale = 1"
definition Pending :: int where "Pending = 2"
definition PendingDisposal :: int where "PendingDisposal = 4"
definition Running' :: int where "Running' = 8"
definition Disposed :: int where "Disposed = 16"
definition Upstreamable :: int where "Upstreamable = 6"
definition Liftable :: int where "Liftable = 7"
definition All :: int where "All = 31"
definition PendingStates :: int where "PendingStates = 14"

lemmas state_defs =
  Actual_def Stale_def Pending_def PendingDisposal_def Running'_def Disposed_def
  Upstreamable_def Liftable_def All_def PendingStates_def

datatype otype =
  TMemo | TObserver | TRenderEffect | TAfterEffect | TComputed | TRoot | TRemountableRoot

text \<open>\<open>(type & ObserverType.EffectsQueue) !== 0\<close>.\<close>

definition isEffect :: "otype \<Rightarrow> bool" where
  "isEffect t \<longleftrightarrow> t = TRenderEffect \<or> t = TAfterEffect"

text \<open>
  What can be thrown: the two errors that the engine raises itself, a \<open>TypeError\<close> of
  the language (a property of \<open>null\<close> or \<open>undefined\<close> is read, or \<open>null\<close> is called), and
  a value thrown by user code.
\<close>

datatype 'x failure = CircularDependency | RunawayClock | JsTypeError | Thrown 'x

text \<open>
  The functions that the user hands to the engine (computations, cleanups, error
  handlers) are programs over the calls of the public interface that they make: reading
  a source, writing a source (with the function of the last value that gives the next
  one), reading a memo or computed through its readable, \<open>untrack\<close>, locking and
  unlocking a source; they return a value or throw. The continuation takes the value
  that the call returns.
\<close>

datatype ('v, 'x) prog =
    Return 'v
  | Throw "'x failure"
  | ReadSource nat "'v \<Rightarrow> ('v, 'x) prog"
  | WriteSource nat "'v \<Rightarrow> 'v" "('v, 'x) prog"
  | ReadObserver nat "'v \<Rightarrow> ('v, 'x) prog"
  | Untrack "('v, 'x) prog" "'v \<Rightarrow> ('v, 'x) prog"
  | Lock nat "('v, 'x) prog"
  | Unlock nat "('v, 'x) prog"

text \<open>
  A log of the calls of user functions and of the commits of sources: the computation
  of an observer is called, the computation returned and its value was assigned, an
  error handler is called with an error, a cleanup is called with its \<open>final\<close> flag,
  the staged value of a source is committed. Handlers and cleanups carry a number that
  names them in the log.
\<close>

datatype ('v, 'x) event =
    FnCalled nat
  | Returned nat 'v
  | HandlerCalled nat "'x failure"
  | CleanupCalled nat bool
  | Committed nat 'v

text \<open>
  \<open>SourceSub\<close>. Observers, sources and subscriptions are objects on a heap and are named
  by numbers; \<open>None\<close> is \<open>null\<close>. An array that is written by index holds \<open>None\<close> where
  it holds \<open>null\<close> or nothing.
\<close>

record subscription =
  sub_obs1 :: "nat option"
  sub_obs1Slot :: int
  sub_obs :: "nat option list option"
  sub_obsSlots :: "int option list option"

text \<open>\<open>Source\<close>; \<open>src_pending = None\<close> is the sentinel \<open>NOT_PENDING\<close>.\<close>

record 'v source =
  src_value :: 'v
  src_pending :: "'v option"
  src_sub :: "nat option"
  src_locked :: int
  src_eq :: "('v \<Rightarrow> 'v \<Rightarrow> bool) option"

text \<open>
  \<open>Observer\<close>. Of the context \<open>ctx\<close> only the entry of the error handlers matters here:
  \<open>None\<close> is a \<open>null\<close> context, \<open>Some None\<close> a context without handlers.
\<close>

record ('v, 'x) observer =
  o_type :: otype
  o_state :: int
  o_fn :: "('v \<Rightarrow> ('v, 'x) prog) option"
  o_value :: 'v
  o_eq :: "('v \<Rightarrow> 'v \<Rightarrow> bool) option"
  o_age :: int
  o_owner :: "nat option"
  o_owned :: "nat list option"
  o_ctx :: "(nat \<times> ('x failure \<Rightarrow> ('v, 'x) prog)) list option option"
  o_cleanups :: "(nat \<times> (bool \<Rightarrow> ('v, 'x) prog)) list option"
  o_src1 :: "nat option"
  o_src1Slot :: int
  o_srcs :: "nat list option"
  o_srcSlots :: "int option list option"
  o_deps :: "nat option list option"
  o_depSlot :: nat
  o_depsCount :: nat
  o_sub :: "nat option"

text \<open>\<open>Queue\<close>: the items are not removed on a flush, the size is reset.\<close>

record queue =
  queue_items :: "nat option list"
  queue_size :: nat

datatype qname = QChanges | QUpdates | QDisposes | QEffects

text \<open>
  The heap and the module variables \<open>$$Observer\<close>, \<open>$$Owner\<close>, \<open>$$Pending\<close>, \<open>$$Time\<close>,
  \<open>$$IsRunning\<close>, \<open>$$PendingEffects\<close> (a \<open>Set\<close>, in insertion order) and the four queues.
\<close>

record ('v, 'x) world =
  w_src :: "nat \<Rightarrow> 'v source"
  w_obs :: "nat \<Rightarrow> ('v, 'x) observer"
  w_sub :: "nat \<Rightarrow> subscription"
  w_nextSub :: nat
  w_Observer :: "nat option"
  w_Owner :: "nat option"
  w_Pending :: "nat option"
  w_Time :: int
  w_IsRunning :: bool
  w_PendingEffects :: "nat list option"
  w_Changes :: queue
  w_Updates :: queue
  w_Disposes :: queue
  w_Effects :: queue
  w_trace :: "('v, 'x) event list"

text \<open>
  The outcome of a call: it returns a value and leaves a world, or it throws and leaves
  the world as it was at the throw, or the bound on the depth of calls was reached.
\<close>

datatype ('a, 'v, 'x) result =
    Done 'a "('v, 'x) world"
  | Raised "'x failure" "('v, 'x) world"
  | OutOfFuel

definition bindR ::
  "('a, 'v, 'x) result \<Rightarrow> ('a \<Rightarrow> ('v, 'x) world \<Rightarrow> ('b, 'v, 'x) result) \<Rightarrow> ('b, 'v, 'x) result" where
  "bindR m f = (case m of Done a w \<Rightarrow> f a w | Raised e w \<Rightarrow> Raised e w | OutOfFuel \<Rightarrow> OutOfFuel)"

definition obs_upd ::
  "nat \<Rightarrow> (('v, 'x) observer \<Rightarrow> ('v, 'x) observer) \<Rightarrow> ('v, 'x) world \<Rightarrow> ('v, 'x) world" where
  "obs_upd o' f w = w\<lparr>w_obs := (w_obs w)(o' := f (w_obs w o'))\<rparr>"

definition src_upd ::
  "nat \<Rightarrow> ('v source \<Rightarrow> 'v source) \<Rightarrow> ('v, 'x) world \<Rightarrow> ('v, 'x) world" where
  "src_upd s f w = w\<lparr>w_src := (w_src w)(s := f (w_src w s))\<rparr>"

definition sub_upd ::
  "nat \<Rightarrow> (subscription \<Rightarrow> subscription) \<Rightarrow> ('v, 'x) world \<Rightarrow> ('v, 'x) world" where
  "sub_upd b f w = w\<lparr>w_sub := (w_sub w)(b := f (w_sub w b))\<rparr>"

definition log_event :: "('v, 'x) event \<Rightarrow> ('v, 'x) world \<Rightarrow> ('v, 'x) world" where
  "log_event e w = w\<lparr>w_trace := w_trace w @ [e]\<rparr>"

definition get_queue :: "qname \<Rightarrow> ('v, 'x) world \<Rightarrow> queue" where
  "get_queue q w =
     (case q of QChanges \<Rightarrow> w_Changes w | QUpdates \<Rightarrow> w_Updates w
      | QDisposes \<Rightarrow> w_Disposes w | QEffects \<Rightarrow> w_Effects w)"

definition set_queue :: "qname \<Rightarrow> queue \<Rightarrow> ('v, 'x) world \<Rightarrow> ('v, 'x) world" where
  "set_queue q v w =
     (case q of QChanges \<Rightarrow> w\<lparr>w_Changes := v\<rparr> | QUpdates \<Rightarrow> w\<lparr>w_Updates := v\<rparr>
      | QDisposes \<Rightarrow> w\<lparr>w_Disposes := v\<rparr> | QEffects \<Rightarrow> w\<lparr>w_Effects := v\<rparr>)"

text \<open>\<open>Queue.add\<close>: \<open>this.items[this.size++] = item\<close>.\<close>

definition queue_push :: "nat \<Rightarrow> queue \<Rightarrow> queue" where
  "queue_push item q =
     q\<lparr>queue_items := set_at (queue_items q) (queue_size q) item,
       queue_size := queue_size q + 1\<rparr>"

definition enqueue :: "qname \<Rightarrow> nat \<Rightarrow> ('v, 'x) world \<Rightarrow> ('v, 'x) world" where
  "enqueue q item w = set_queue q (queue_push item (get_queue q w)) w"

text \<open>The array of an optional array field, empty for \<open>null\<close>.\<close>

definition arr :: "'b list option \<Rightarrow> 'b list" where
  "arr xs = (case xs of None \<Rightarrow> [] | Some ys \<Rightarrow> ys)"

section \<open>Subscriptions\<close>

text \<open>
  \<open>SourceSub.connect\<close> for the running observer \<open>to\<close> (it is called only where
  \<open>$$Observer\<close> is not \<open>null\<close>). The arrays \<open>obs\<close> and \<open>obsSlots\<close>, and \<open>srcs\<close> and
  \<open>srcSlots\<close>, are made together, so the second is not \<open>null\<close> where the first is not.
\<close>

definition connect :: "nat \<Rightarrow> nat \<Rightarrow> ('v, 'x) world \<Rightarrow> ('v, 'x) world" where
  "connect b to w =
     (let t = w_obs w to; s = w_sub w b;
          toSlot = (if o_src1 t = None then - 1
                    else (case o_srcs t of None \<Rightarrow> 0 | Some xs \<Rightarrow> int (length xs)));
          from =
            (if sub_obs1 s = None
             then Some (s\<lparr>sub_obs1 := Some to, sub_obs1Slot := toSlot\<rparr>, - 1)
             else (case sub_obs s of
                     None \<Rightarrow>
                       if sub_obs1 s = Some to then None
                       else Some (s\<lparr>sub_obs := Some [Some to],
                                    sub_obsSlots := Some [Some toSlot]\<rparr>, 0)
                   | Some os \<Rightarrow>
                       if get_at os (length os - 1) = Some to then None
                       else Some (s\<lparr>sub_obs := Some (os @ [Some to]),
                                    sub_obsSlots := Some (arr (sub_obsSlots s) @ [Some toSlot])\<rparr>,
                                  int (length os))))
      in case from of
           None \<Rightarrow> w
         | Some (s', fromSlot) \<Rightarrow>
             obs_upd to
               (\<lambda>t. if o_src1 t = None then t\<lparr>o_src1 := Some b, o_src1Slot := fromSlot\<rparr>
                    else (case o_srcs t of
                            None \<Rightarrow> t\<lparr>o_srcs := Some [b], o_srcSlots := Some [Some fromSlot]\<rparr>
                          | Some xs \<Rightarrow>
                              t\<lparr>o_srcs := Some (xs @ [b]),
                                o_srcSlots := Some (arr (o_srcSlots t) @ [Some fromSlot])\<rparr>))
               (sub_upd b (\<lambda>_. s') w))"

text \<open>
  \<open>SourceSub.disconnect(slot)\<close>: the back-edge of the slot is removed by moving the last
  one into its place. Slots are \<open>-1\<close> or indices.
\<close>

definition sub_disconnect ::
  "nat \<Rightarrow> int \<Rightarrow> ('v, 'x) world \<Rightarrow> ('x failure \<times> ('v, 'x) world) + ('v, 'x) world" where
  "sub_disconnect b slot w =
     (let s = w_sub w b in
      if slot = - 1 then Inr (sub_upd b (\<lambda>s. s\<lparr>sub_obs1 := None\<rparr>) w)
      else
        (case sub_obs s of
           None \<Rightarrow> Inl (JsTypeError, w)
         | Some os \<Rightarrow>
             (let slots = arr (sub_obsSlots s);
                  last' = (if os = [] then None else last os);
                  lastSlot = (if slots = [] then None else last slots);
                  os' = butlast os; slots' = butlast slots
              in if slot \<noteq> int (length os') then
                   (let w1 = sub_upd b
                               (\<lambda>s. s\<lparr>sub_obs := Some (assign os' (nat slot) last'),
                                      sub_obsSlots := Some (assign slots' (nat slot) lastSlot)\<rparr>) w
                    in case last' of
                         None \<Rightarrow> Inl (JsTypeError, w1)
                       | Some l \<Rightarrow>
                           if lastSlot = Some (- 1)
                           then Inr (obs_upd l (\<lambda>t. t\<lparr>o_src1Slot := slot\<rparr>) w1)
                           else (case o_srcSlots (w_obs w1 l) of
                                   None \<Rightarrow> Inl (JsTypeError, w1)
                                 | Some ss \<Rightarrow>
                                     (case lastSlot of
                                        None \<Rightarrow> Inr w1
                                      | Some ls \<Rightarrow>
                                          Inr (obs_upd l
                                                 (\<lambda>t. t\<lparr>o_srcSlots :=
                                                          Some (assign ss (nat ls) (Some slot))\<rparr>)
                                                 w1))))
                 else Inr (sub_upd b (\<lambda>s. s\<lparr>sub_obs := Some os', sub_obsSlots := Some slots'\<rparr>) w))))"

text \<open>\<open>resetObserver(observer, flags)\<close>.\<close>

definition resetObserver :: "nat \<Rightarrow> int \<Rightarrow> ('v, 'x) world \<Rightarrow> ('v, 'x) world" where
  "resetObserver o' flags w =
     obs_upd o' (\<lambda>t. t\<lparr>o_state := o_state t AND NOT flags, o_depSlot := 0, o_depsCount := 0\<rparr>) w"

text \<open>\<open>isPendingEffect(observer)\<close>.\<close>

definition isPendingEffect :: "nat \<Rightarrow> ('v, 'x) world \<Rightarrow> bool" where
  "isPendingEffect o' w =
     (case w_PendingEffects w of None \<Rightarrow> False | Some pe \<Rightarrow> o' \<in> set pe)"

text \<open>
  \<open>lookup(owner, ERROR)\<close>: the handlers of the nearest owner, from \<open>owner\<close> upwards, whose
  context holds handlers. The first argument bounds the length of the owner chain that
  is walked; \<open>None\<close> says that the bound was reached.
\<close>

fun lookup ::
  "nat \<Rightarrow> ('v, 'x) world \<Rightarrow> nat option
     \<Rightarrow> (nat \<times> ('x failure \<Rightarrow> ('v, 'x) prog)) list option option" where
  "lookup 0 w ow = None"
| "lookup (Suc n) w None = Some None"
| "lookup (Suc n) w (Some k) =
     (case o_ctx (w_obs w k) of
        Some (Some fns) \<Rightarrow> Some (Some fns)
      | _ \<Rightarrow> (case o_owner (w_obs w k) of None \<Rightarrow> Some None | Some p \<Rightarrow> lookup n w (Some p)))"


section \<open>The functions of the engine\<close>

text \<open>
  The functions of \<open>observable.ts\<close> call each other, and the functions of the user,
  without a bound that the code states: a computation reads a memo, which is updated,
  which runs its computation. Each function is therefore written over a table \<open>E\<close> of
  the functions that it calls (\<open>f_in E\<close> is the body of \<open>f\<close>), and the table \<open>engine n\<close>
  holds the functions for calls nested at most \<open>n\<close> deep: with no depth left a call
  answers \<open>OutOfFuel\<close>. Loops over an array are recursions over the list.
\<close>

datatype marker = MStale | MPending | MStalePending

record ('v, 'x) table =
  e_markForDisposal :: "nat list \<Rightarrow> bool \<Rightarrow> ('v, 'x) world \<Rightarrow> (unit, 'v, 'x) result"
  e_mark :: "marker \<Rightarrow> nat \<Rightarrow> ('v, 'x) world \<Rightarrow> (unit, 'v, 'x) result"
  e_markDownstream :: "nat \<Rightarrow> bool \<Rightarrow> bool \<Rightarrow> ('v, 'x) world \<Rightarrow> (unit, 'v, 'x) result"
  e_obs_call :: "nat \<Rightarrow> ('v, 'x) world \<Rightarrow> ('v, 'v, 'x) result"
  e_event :: "('v, 'x) world \<Rightarrow> (unit, 'v, 'x) result"
  e_runQueues :: "('v, 'x) world \<Rightarrow> (unit, 'v, 'x) result"
  e_ticks :: "nat \<Rightarrow> ('v, 'x) world \<Rightarrow> (unit, 'v, 'x) result"
  e_queue_run :: "qname \<Rightarrow> nat \<Rightarrow> ('v, 'x) world \<Rightarrow> (unit, 'v, 'x) result"
  e_runEffects :: "('v, 'x) world \<Rightarrow> (unit, 'v, 'x) result"
  e_effectsLoop :: "nat \<Rightarrow> nat list \<Rightarrow> ('v, 'x) world \<Rightarrow> (nat list, 'v, 'x) result"
  e_updateNode :: "nat \<Rightarrow> ('v, 'x) world \<Rightarrow> (unit, 'v, 'x) result"
  e_liftObserver :: "nat \<Rightarrow> ('v, 'x) world \<Rightarrow> (unit, 'v, 'x) result"
  e_dispose :: "nat \<Rightarrow> ('v, 'x) world \<Rightarrow> (unit, 'v, 'x) result"

subsection \<open>Marking\<close>

text \<open>\<open>markForDisposal(children, pending)\<close>, a recursion over the tree of owned observers.\<close>

fun markForDisposal_in ::
  "('v, 'x) table \<Rightarrow> nat list \<Rightarrow> bool \<Rightarrow> ('v, 'x) world \<Rightarrow> (unit, 'v, 'x) result" where
  "markForDisposal_in E [] pending w = Done () w"
| "markForDisposal_in E (child # rest) pending w =
     (let w1 = (if pending
                then (if o_state (w_obs w child) AND Disposed = 0
                      then obs_upd child (\<lambda>t. t\<lparr>o_state := o_state t OR PendingDisposal\<rparr>) w
                      else w)
                else obs_upd child (\<lambda>t. t\<lparr>o_age := w_Time w, o_state := Disposed\<rparr>) w)
      in bindR (case o_owned (w_obs w1 child) of
                  None \<Rightarrow> Done () w1
                | Some owned \<Rightarrow> e_markForDisposal E owned pending w1)
           (\<lambda>u. markForDisposal_in E rest pending))"

definition stalePendingEffect ::
  "('v, 'x) table \<Rightarrow> nat \<Rightarrow> ('v, 'x) world \<Rightarrow> (unit, 'v, 'x) result" where
  "stalePendingEffect E o' w =
     (let state = o_state (w_obs w o'); owned = o_owned (w_obs w o') in
      if state AND Stale = 0 then
        (if state = Pending then
           (let w1 = obs_upd o' (\<lambda>t. t\<lparr>o_state := Stale\<rparr>) w in
            case owned of None \<Rightarrow> Done () w1 | Some ch \<Rightarrow> e_markForDisposal E ch False w1)
         else if state AND PendingDisposal \<noteq> 0 then
           (let w1 = obs_upd o' (\<lambda>t. t\<lparr>o_state := o_state t OR Stale\<rparr>) w in
            case owned of None \<Rightarrow> Done () w1 | Some ch \<Rightarrow> e_markForDisposal E ch False w1)
         else Done () w)
      else Done () w)"

definition getStateFn :: "otype \<Rightarrow> bool \<Rightarrow> bool \<Rightarrow> marker" where
  "getStateFn observerType onChange dirty =
     (if observerType = TComputed then MStale
      else if dirty then MStalePending else if onChange then MPending else MStale)"

text \<open>
  The two branches that end \<open>stale\<close> and \<open>pending\<close>: into the queue of effects, or into
  the queue of updates unless the observer is a lazy computed.
\<close>

definition schedule :: "nat \<Rightarrow> ('v, 'x) world \<Rightarrow> ('v, 'x) world" where
  "schedule o' w =
     (if isEffect (o_type (w_obs w o')) then enqueue QEffects o' w
      else if o_type (w_obs w o') \<noteq> TComputed then enqueue QUpdates o' w
      else w)"

text \<open>\<open>prepareDownstream(observer, pending)\<close>.\<close>

definition prepareDownstream ::
  "('v, 'x) table \<Rightarrow> nat \<Rightarrow> bool \<Rightarrow> ('v, 'x) world \<Rightarrow> (unit, 'v, 'x) result" where
  "prepareDownstream E o' pending w =
     (if o_eq (w_obs w o') \<noteq> None then
        (let saved = w_Pending w in
         bindR (e_markDownstream E o' True False (w\<lparr>w_Pending := Some o'\<rparr>))
           (\<lambda>u w1. Done () (w1\<lparr>w_Pending := saved\<rparr>)))
      else e_markDownstream E o' pending False w)"

text \<open>
  The state functions: \<open>mark_in E MStale\<close> is \<open>stale\<close>, \<open>mark_in E MPending\<close> is \<open>pending\<close>
  and \<open>mark_in E MStalePending\<close> is \<open>stalePending\<close>.
\<close>

definition mark_in ::
  "('v, 'x) table \<Rightarrow> marker \<Rightarrow> nat \<Rightarrow> ('v, 'x) world \<Rightarrow> (unit, 'v, 'x) result" where
  "mark_in E m o' w =
     (case m of
        MStale \<Rightarrow>
          if o_age (w_obs w o') < w_Time w then
            (let w1 = obs_upd o' (\<lambda>t. t\<lparr>o_age := w_Time w\<rparr>) w in
             if isEffect (o_type (w_obs w1 o')) \<and> isPendingEffect o' w1
             then stalePendingEffect E o' w1
             else (let w2 = schedule o'
                              (obs_upd o' (\<lambda>t. t\<lparr>o_state := o_state t OR Stale\<rparr>) w1)
                   in prepareDownstream E o' (o_eq (w_obs w2 o') \<noteq> None) w2))
          else Done () w
      | MPending \<Rightarrow>
          if o_age (w_obs w o') < w_Time w then
            (if \<not> (isEffect (o_type (w_obs w o')) \<and> isPendingEffect o' w
                    \<and> o_state (w_obs w o') = PendingDisposal)
             then (let w1 = obs_upd o'
                              (\<lambda>t. t\<lparr>o_state := o_state t OR Pending,
                                     o_deps := Some (assign (arr (o_deps t)) (o_depsCount t)
                                                        (w_Pending w)),
                                     o_depsCount := o_depsCount t + 1\<rparr>) w
                   in prepareDownstream E o' True (schedule o' w1))
             else Done () w)
          else Done () w
      | MStalePending \<Rightarrow>
          if o_state (w_obs w o') AND Pending \<noteq> 0 then
            (let w1 = obs_upd o' (\<lambda>t. t\<lparr>o_state := Stale\<rparr>) w in
             if o_age (w_obs w1 o') < w_Time w1 then
               (let w2 = obs_upd o' (\<lambda>t. t\<lparr>o_age := w_Time w1\<rparr>) w1 in
                if o_eq (w_obs w2 o') = None then e_markDownstream E o' False True w2
                else Done () w2)
             else Done () w1)
          else Done () w)"

text \<open>The loop of \<open>markObservers\<close> over \<open>sub.obs\<close>.\<close>

fun markEach ::
  "(nat \<Rightarrow> ('v, 'x) world \<Rightarrow> (unit, 'v, 'x) result) \<Rightarrow> nat option list \<Rightarrow> ('v, 'x) world
     \<Rightarrow> (unit, 'v, 'x) result" where
  "markEach stateFn [] w = Done () w"
| "markEach stateFn (x # xs) w =
     (case x of
        None \<Rightarrow> Raised JsTypeError w
      | Some o' \<Rightarrow> bindR (stateFn o' w) (\<lambda>u. markEach stateFn xs))"

definition markObservers ::
  "('v, 'x) table \<Rightarrow> nat \<Rightarrow> marker \<Rightarrow> ('v, 'x) world \<Rightarrow> (unit, 'v, 'x) result" where
  "markObservers E b m w =
     (let obs1 = sub_obs1 (w_sub w b); obs = sub_obs (w_sub w b) in
      bindR (case obs1 of None \<Rightarrow> Done () w | Some o1 \<Rightarrow> e_mark E m o1 w)
        (\<lambda>u w1. case obs of None \<Rightarrow> Done () w1 | Some os \<Rightarrow> markEach (e_mark E m) os w1))"

definition markDownstream_in ::
  "('v, 'x) table \<Rightarrow> nat \<Rightarrow> bool \<Rightarrow> bool \<Rightarrow> ('v, 'x) world \<Rightarrow> (unit, 'v, 'x) result" where
  "markDownstream_in E o' onChange dirty w =
     bindR (case o_owned (w_obs w o') of
              None \<Rightarrow> Done () w
            | Some owned \<Rightarrow> e_markForDisposal E owned (onChange \<and> \<not> dirty) w)
       (\<lambda>u w1. case o_sub (w_obs w1 o') of
                  None \<Rightarrow> Done () w1
                | Some b \<Rightarrow>
                    markObservers E b (getStateFn (o_type (w_obs w1 o')) onChange dirty) w1)"

text \<open>
  \<open>applyDataChange(src)\<close>: the staged value is committed and the subscribers are marked
  stale. \<open>next\<close> and \<open>unlock\<close> add a source to \<open>$$Changes\<close> with a staged value only;
  for a source with nothing staged the value is left here (the code assigns the sentinel).
\<close>

definition applyDataChange ::
  "('v, 'x) table \<Rightarrow> nat \<Rightarrow> ('v, 'x) world \<Rightarrow> (unit, 'v, 'x) result" where
  "applyDataChange E s w =
     (let sr = w_src w s;
          v = (case src_pending sr of None \<Rightarrow> src_value sr | Some p \<Rightarrow> p);
          w1 = log_event (Committed s v)
                 (src_upd s (\<lambda>r. r\<lparr>src_value := v, src_pending := None\<rparr>) w)
      in case src_sub sr of None \<Rightarrow> Done () w1 | Some b \<Rightarrow> markObservers E b MStale w1)"

text \<open>
  \<open>savePendingEffects\<close>: the effects of the queue join the set of pending effects, in
  their order and once each. Below its size the queue of effects holds observers only:
  it is filled by \<open>add\<close> and never run by \<open>Queue.run\<close>.
\<close>

definition savePendingEffects :: "('v, 'x) world \<Rightarrow> ('v, 'x) world" where
  "savePendingEffects w =
     (let q = w_Effects w;
          new = List.map_filter (get_at (queue_items q)) [0..<queue_size q];
          old = (case w_PendingEffects w of None \<Rightarrow> [] | Some pe \<Rightarrow> pe)
      in w\<lparr>w_PendingEffects :=
             Some (fold (\<lambda>x acc. if x \<in> set acc then acc else acc @ [x]) new old),
           w_Effects := q\<lparr>queue_size := 0\<rparr>\<rparr>)"

subsection \<open>Sources\<close>

text \<open>\<open>new SourceSub()\<close>.\<close>

definition new_sub :: "('v, 'x) world \<Rightarrow> nat \<times> ('v, 'x) world" where
  "new_sub w =
     (w_nextSub w,
      (sub_upd (w_nextSub w)
         (\<lambda>_. \<lparr>sub_obs1 = None, sub_obs1Slot = 0, sub_obs = None, sub_obsSlots = None\<rparr>) w)
        \<lparr>w_nextSub := w_nextSub w + 1\<rparr>)"

text \<open>\<open>Source.current\<close>: the read of a source, which connects the running observer.\<close>

definition src_current :: "nat \<Rightarrow> ('v, 'x) world \<Rightarrow> 'v \<times> ('v, 'x) world" where
  "src_current s w =
     (case w_Observer w of
        None \<Rightarrow> (src_value (w_src w s), w)
      | Some to \<Rightarrow>
          (let (b, w1) = (case src_sub (w_src w s) of
                            None \<Rightarrow> (let (b, w') = new_sub w
                                      in (b, src_upd s (\<lambda>r. r\<lparr>src_sub := Some b\<rparr>) w'))
                          | Some b \<Rightarrow> (b, w))
           in (src_value (w_src w1 s), connect b to w1)))"

text \<open>\<open>Source.next(value)\<close>.\<close>

definition src_next ::
  "('v, 'x) table \<Rightarrow> nat \<Rightarrow> 'v \<Rightarrow> ('v, 'x) world \<Rightarrow> ('v, 'v, 'x) result" where
  "src_next E s v w =
     (let sr = w_src w s in
      if src_locked sr > 0 then Done v (src_upd s (\<lambda>r. r\<lparr>src_pending := Some v\<rparr>) w)
      else if w_IsRunning w then
        Done v (src_upd s (\<lambda>r. r\<lparr>src_pending := Some v\<rparr>)
                  (if src_pending sr = None then enqueue QChanges s w else w))
      else if src_sub sr \<noteq> None then
        bindR (e_event E (enqueue QChanges s (src_upd s (\<lambda>r. r\<lparr>src_pending := Some v\<rparr>) w)))
          (\<lambda>u w1. Done v w1)
      else Done v (src_upd s (\<lambda>r. r\<lparr>src_value := v\<rparr>) w))"

text \<open>
  \<open>Source.call(next)\<close> with an argument: the write. \<open>f\<close> gives the next value from the
  last one (the constant function for a plain value).
\<close>

definition src_write ::
  "('v, 'x) table \<Rightarrow> nat \<Rightarrow> ('v \<Rightarrow> 'v) \<Rightarrow> ('v, 'x) world \<Rightarrow> ('v, 'v, 'x) result" where
  "src_write E s f w =
     (let sr = w_src w s;
          lastValue = (case src_pending sr of None \<Rightarrow> src_value sr | Some p \<Rightarrow> p);
          next = f lastValue
      in if (case src_eq sr of None \<Rightarrow> True | Some eq \<Rightarrow> \<not> eq lastValue next)
         then src_next E s next w
         else Done lastValue w)"

text \<open>
  \<open>Source.lock\<close> and \<open>Source.unlock\<close>. \<open>Queue.itemIndex\<close> searches the whole array of
  items, and \<open>Queue.remove\<close> splices the item out and leaves the size.
\<close>

definition src_lock :: "nat \<Rightarrow> ('v, 'x) world \<Rightarrow> ('v, 'x) world" where
  "src_lock s w =
     (let w1 = src_upd s (\<lambda>r. r\<lparr>src_locked := src_locked r + 1\<rparr>) w in
      if w_IsRunning w1 then
        (let items' = queue_items (w_Changes w1);
             srcIndexInChanges = indexOf items' (Some s) 0
         in if srcIndexInChanges \<noteq> - 1
            then w1\<lparr>w_Changes := (w_Changes w1)
                       \<lparr>queue_items := snd (splice items' srcIndexInChanges 1 [])\<rparr>\<rparr>
            else w1)
      else w1)"

definition src_unlock ::
  "('v, 'x) table \<Rightarrow> nat \<Rightarrow> ('v, 'x) world \<Rightarrow> (unit, 'v, 'x) result" where
  "src_unlock E s w =
     (if src_locked (w_src w s) = 0 then Done () w
      else
        (let w1 = src_upd s (\<lambda>r. r\<lparr>src_locked := src_locked r - 1\<rparr>) w in
         if src_locked (w_src w1 s) = 0 \<and> src_pending (w_src w1 s) \<noteq> None then
           (let w2 = enqueue QChanges s w1 in
            if \<not> w_IsRunning w2 then e_event E w2 else Done () w2)
         else Done () w1))"


subsection \<open>User code\<close>

text \<open>
  The run of a user function. \<open>untrack\<close> does not restore \<open>$$Observer\<close> when its
  function throws.
\<close>

primrec exec ::
  "('v, 'x) table \<Rightarrow> ('v, 'x) prog \<Rightarrow> ('v, 'x) world \<Rightarrow> ('v, 'v, 'x) result" where
  "exec E (Return v) = (\<lambda>w. Done v w)"
| "exec E (Throw e) = (\<lambda>w. Raised e w)"
| "exec E (ReadSource s k) = (\<lambda>w. let (v, w1) = src_current s w in exec E (k v) w1)"
| "exec E (WriteSource s f k) = (\<lambda>w. bindR (src_write E s f w) (\<lambda>u. exec E k))"
| "exec E (ReadObserver o' k) = (\<lambda>w. bindR (e_obs_call E o' w) (\<lambda>v. exec E (k v)))"
| "exec E (Untrack p k) =
     (\<lambda>w. let listener = w_Observer w in
          bindR (exec E p (w\<lparr>w_Observer := None\<rparr>))
            (\<lambda>v w1. exec E (k v) (w1\<lparr>w_Observer := listener\<rparr>)))"
| "exec E (Lock s k) = (\<lambda>w. exec E k (src_lock s w))"
| "exec E (Unlock s k) = (\<lambda>w. bindR (src_unlock E s w) (\<lambda>u. exec E k))"

text \<open>\<open>runAll(fns, e)\<close> over the error handlers, and the loop over the cleanups.\<close>

fun runAll ::
  "('v, 'x) table \<Rightarrow> (nat \<times> ('x failure \<Rightarrow> ('v, 'x) prog)) list \<Rightarrow> 'x failure
     \<Rightarrow> ('v, 'x) world \<Rightarrow> (unit, 'v, 'x) result" where
  "runAll E [] e w = Done () w"
| "runAll E ((h, fn) # fns) e w =
     bindR (exec E (fn e) (log_event (HandlerCalled h e) w)) (\<lambda>v. runAll E fns e)"

fun runCleanups ::
  "('v, 'x) table \<Rightarrow> (nat \<times> (bool \<Rightarrow> ('v, 'x) prog)) list \<Rightarrow> bool
     \<Rightarrow> ('v, 'x) world \<Rightarrow> (unit, 'v, 'x) result" where
  "runCleanups E [] final w = Done () w"
| "runCleanups E ((c, fn) # fns) final w =
     bindR (exec E (fn final) (log_event (CleanupCalled c final) w))
       (\<lambda>v. runCleanups E fns final)"

text \<open>
  \<open>handleError(e)\<close>: the handlers are looked up from \<open>$$Owner\<close>; without handlers the
  error is thrown again.
\<close>

definition handleError ::
  "nat \<Rightarrow> ('v, 'x) table \<Rightarrow> 'x failure \<Rightarrow> ('v, 'x) world \<Rightarrow> (unit, 'v, 'x) result" where
  "handleError n E e w =
     (case lookup n w (w_Owner w) of
        None \<Rightarrow> OutOfFuel
      | Some None \<Rightarrow> Raised e w
      | Some (Some fns) \<Rightarrow> runAll E fns e w)"

subsection \<open>Observers\<close>

text \<open>The loop of \<open>disconnect\<close> over the additional sources of the observer.\<close>

fun disconnectAll ::
  "nat list \<Rightarrow> nat \<Rightarrow> nat \<Rightarrow> ('v, 'x) world \<Rightarrow> ('x failure \<times> ('v, 'x) world) + ('v, 'x) world" where
  "disconnectAll [] i o' w = Inr w"
| "disconnectAll (b # bs) i o' w =
     (case o_srcSlots (w_obs w o') of
        None \<Rightarrow> Inl (JsTypeError, w)
      | Some ss \<Rightarrow>
          (case get_at ss i of
             None \<Rightarrow> Inl (JsTypeError, w)
           | Some slot \<Rightarrow>
               (case sub_disconnect b slot w of
                  Inl e \<Rightarrow> Inl e
                | Inr w1 \<Rightarrow> disconnectAll bs (i + 1) o' w1)))"

definition lift_sum ::
  "('x failure \<times> ('v, 'x) world) + ('v, 'x) world \<Rightarrow> (unit, 'v, 'x) result" where
  "lift_sum r = (case r of Inl (e, w) \<Rightarrow> Raised e w | Inr w \<Rightarrow> Done () w)"

fun disposeEach ::
  "('v, 'x) table \<Rightarrow> nat list \<Rightarrow> ('v, 'x) world \<Rightarrow> (unit, 'v, 'x) result" where
  "disposeEach E [] w = Done () w"
| "disposeEach E (c # cs) w = bindR (e_dispose E c w) (\<lambda>u. disposeEach E cs)"

text \<open>\<open>disconnect(observer, final)\<close>.\<close>

definition disconnect ::
  "('v, 'x) table \<Rightarrow> nat \<Rightarrow> bool \<Rightarrow> ('v, 'x) world \<Rightarrow> (unit, 'v, 'x) result" where
  "disconnect E o' final w =
     (let src1 = o_src1 (w_obs w o'); srcs = o_srcs (w_obs w o');
          cleanups = o_cleanups (w_obs w o'); owned = o_owned (w_obs w o')
      in
      bindR (case cleanups of
               None \<Rightarrow> Done () w
             | Some cs \<Rightarrow>
                 bindR (runCleanups E cs final w)
                   (\<lambda>u w1. Done () (obs_upd o' (\<lambda>t. t\<lparr>o_cleanups := None\<rparr>) w1))) (\<lambda>u w2.
      let w3 = obs_upd o' (\<lambda>t. t\<lparr>o_ctx := None\<rparr>) w2 in
      bindR (case owned of
               None \<Rightarrow> Done () w3
             | Some ch \<Rightarrow>
                 bindR (disposeEach E ch w3)
                   (\<lambda>u w4. Done () (obs_upd o' (\<lambda>t. t\<lparr>o_owned := None\<rparr>) w4))) (\<lambda>u w5.
      bindR (case src1 of
               None \<Rightarrow> Done () w5
             | Some b \<Rightarrow>
                 bindR (lift_sum (sub_disconnect b (o_src1Slot (w_obs w5 o')) w5))
                   (\<lambda>u w6. Done () (obs_upd o' (\<lambda>t. t\<lparr>o_src1 := None\<rparr>) w6))) (\<lambda>u w7.
      case srcs of
        None \<Rightarrow> Done () w7
      | Some bs \<Rightarrow>
          bindR (lift_sum (disconnectAll bs 0 o' w7))
            (\<lambda>u w8. Done () (obs_upd o' (\<lambda>t. t\<lparr>o_srcs := None, o_srcSlots := None\<rparr>) w8))))))"

text \<open>\<open>dispose(observer)\<close>.\<close>

definition dispose_in ::
  "('v, 'x) table \<Rightarrow> nat \<Rightarrow> ('v, 'x) world \<Rightarrow> (unit, 'v, 'x) result" where
  "dispose_in E o' w =
     bindR (disconnect E o' True
              (obs_upd o' (\<lambda>t. t\<lparr>o_fn := None, o_sub := None, o_deps := None\<rparr>) w))
       (\<lambda>u w1. Done () (resetObserver o' All w1))"

text \<open>
  \<open>runObserver(observer)\<close>. It returns the value that the observer had before the run.
  When the function throws, nothing after the call is done: the value is not assigned,
  the state stays \<open>Running\<close>, and \<open>$$Owner\<close> and \<open>$$Observer\<close> are not restored.
\<close>

definition runObserver ::
  "('v, 'x) table \<Rightarrow> nat \<Rightarrow> ('v, 'x) world \<Rightarrow> ('v, 'v, 'x) result" where
  "runObserver E o' w =
     (let value = o_value (w_obs w o'); owner = w_Owner w; listener = w_Observer w;
          w1 = obs_upd o' (\<lambda>t. t\<lparr>o_state := Running'\<rparr>)
                 (w\<lparr>w_Owner := Some o', w_Observer := Some o'\<rparr>)
      in bindR (disconnect E o' False w1) (\<lambda>u w2.
         case o_fn (w_obs w2 o') of
           None \<Rightarrow> Raised JsTypeError w2
         | Some fn \<Rightarrow>
             bindR (exec E (fn value) (log_event (FnCalled o') w2)) (\<lambda>v w3.
             Done value
               ((resetObserver o' All
                   (obs_upd o' (\<lambda>t. t\<lparr>o_value := v\<rparr>) (log_event (Returned o' v) w3)))
                  \<lparr>w_Owner := owner, w_Observer := listener\<rparr>))))"

text \<open>\<open>updateNode(observer)\<close>.\<close>

definition updateNode_in ::
  "('v, 'x) table \<Rightarrow> nat \<Rightarrow> ('v, 'x) world \<Rightarrow> (unit, 'v, 'x) result" where
  "updateNode_in E o' w =
     (let state = o_state (w_obs w o') in
      if state AND Disposed = 0 then
        (if state AND Pending \<noteq> 0 then
           (case o_deps (w_obs w o') of
              None \<Rightarrow> Raised JsTypeError w
            | Some deps \<Rightarrow>
                (let w1 = obs_upd o'
                            (\<lambda>t. t\<lparr>o_deps := Some (assign deps (o_depSlot t) None),
                                   o_depSlot := o_depSlot t + 1\<rparr>) w
                 in if o_depSlot (w_obs w1 o') = o_depsCount (w_obs w1 o')
                    then Done () (resetObserver o' PendingStates w1)
                    else Done () w1))
         else if state AND Stale \<noteq> 0 then
           (if state AND PendingDisposal \<noteq> 0 then e_liftObserver E o' w
            else (case o_eq (w_obs w o') of
                    Some eq \<Rightarrow>
                      bindR (runObserver E o' w) (\<lambda>current w1.
                      if \<not> eq current (o_value (w_obs w1 o'))
                      then e_markDownstream E o' False True w1
                      else Done () w1)
                  | None \<Rightarrow> bindR (runObserver E o' w) (\<lambda>current w1. Done () w1)))
         else Done () w)
      else Done () w)"

text \<open>
  The loop of \<open>applyUpstream\<close> over the pending dependencies \<open>deps[depSlot..l)\<close>. The
  array \<open>deps\<close> is taken once, before the loop; it is the array of the observer for as
  long as the observer keeps it (\<open>dispose\<close> drops it), and \<open>held\<close> is what it held
  when it was taken.
\<close>

fun liftDeps ::
  "('v, 'x) table \<Rightarrow> nat \<Rightarrow> nat option list \<Rightarrow> nat list \<Rightarrow> ('v, 'x) world
     \<Rightarrow> (unit, 'v, 'x) result" where
  "liftDeps E o' held [] w = Done () w"
| "liftDeps E o' held (i # is) w =
     bindR (case get_at (case o_deps (w_obs w o') of None \<Rightarrow> held | Some deps \<Rightarrow> deps) i of
              None \<Rightarrow> Done () w
            | Some dep \<Rightarrow> e_liftObserver E dep w)
       (\<lambda>u w1. liftDeps E o' held is
                 (obs_upd o' (\<lambda>t. t\<lparr>o_deps := map_option (\<lambda>d. assign d i None) (o_deps t)\<rparr>)
                    w1))"

text \<open>\<open>applyUpstream(observer)\<close>.\<close>

definition applyUpstream ::
  "('v, 'x) table \<Rightarrow> nat \<Rightarrow> ('v, 'x) world \<Rightarrow> (unit, 'v, 'x) result" where
  "applyUpstream E o' w =
     bindR (if o_state (w_obs w o') AND PendingDisposal \<noteq> 0 then
              (case o_owner (w_obs w o') of
                 None \<Rightarrow> Raised JsTypeError w
               | Some ow \<Rightarrow>
                   bindR (if o_state (w_obs w ow) AND Liftable \<noteq> 0
                          then e_liftObserver E ow w else Done () w)
                     (\<lambda>u w1. Done ()
                        (obs_upd o' (\<lambda>t. t\<lparr>o_state := o_state t AND NOT PendingDisposal\<rparr>) w1)))
            else Done () w) (\<lambda>u w2.
     if o_state (w_obs w2 o') AND Pending \<noteq> 0 then
       bindR (if o_depSlot (w_obs w2 o') < o_depsCount (w_obs w2 o') then
                (case o_deps (w_obs w2 o') of
                   None \<Rightarrow> Raised JsTypeError w2
                 | Some deps \<Rightarrow>
                     liftDeps E o' deps [o_depSlot (w_obs w2 o')..<o_depsCount (w_obs w2 o')] w2)
              else Done () w2)
         (\<lambda>u w3. Done () (obs_upd o' (\<lambda>t. t\<lparr>o_state := o_state t AND NOT Pending\<rparr>) w3))
     else Done () w2)"

text \<open>\<open>liftObserver(observer)\<close>.\<close>

definition liftObserver_in ::
  "('v, 'x) table \<Rightarrow> nat \<Rightarrow> ('v, 'x) world \<Rightarrow> (unit, 'v, 'x) result" where
  "liftObserver_in E o' w =
     bindR (if o_state (w_obs w o') AND Upstreamable \<noteq> 0 then applyUpstream E o' w
            else Done () w) (\<lambda>u w1.
     bindR (if o_state (w_obs w1 o') AND Stale \<noteq> 0 then e_updateNode E o' w1
            else Done () w1) (\<lambda>u w2.
     Done () (resetObserver o' All w2)))"

text \<open>
  \<open>Observer.call\<close>: the read of a memo or computed through its readable. The state is
  read once, before the observer is lifted.
\<close>

definition obs_call_in ::
  "('v, 'x) table \<Rightarrow> nat \<Rightarrow> ('v, 'x) world \<Rightarrow> ('v, 'v, 'x) result" where
  "obs_call_in E o' w =
     bindR (if o_type (w_obs w o') = TComputed \<and> o_state (w_obs w o') AND Stale \<noteq> 0
            then e_updateNode E o' w else Done () w) (\<lambda>u w1.
     bindR (case w_Observer w1 of
              None \<Rightarrow> Done () w1
            | Some listener \<Rightarrow>
                (let state = o_state (w_obs w1 o') in
                 bindR (if state AND Liftable \<noteq> 0 then e_liftObserver E o' w1
                        else Done () w1) (\<lambda>u w2.
                 if o_age (w_obs w2 o') = w_Time w2 \<and> state = Running'
                 then Raised CircularDependency w2
                 else if state AND Disposed = 0 then
                   (let (b, w3) = (case o_sub (w_obs w2 o') of
                                     None \<Rightarrow> (let (b, w') = new_sub w2
                                               in (b, obs_upd o' (\<lambda>t. t\<lparr>o_sub := Some b\<rparr>) w'))
                                   | Some b \<Rightarrow> (b, w2))
                    in case w_Observer w3 of
                         None \<Rightarrow> Raised JsTypeError w3
                       | Some to \<Rightarrow> Done () (connect b to w3))
                 else Done () w2))) (\<lambda>u w4.
     Done (o_value (w_obs w4 o')) w4))"

subsection \<open>The scheduler\<close>

text \<open>The function \<open>fn\<close> of each of the four queues.\<close>

definition queue_fn ::
  "('v, 'x) table \<Rightarrow> qname \<Rightarrow> nat \<Rightarrow> ('v, 'x) world \<Rightarrow> (unit, 'v, 'x) result" where
  "queue_fn E q x w =
     (case q of
        QChanges \<Rightarrow> applyDataChange E x w
      | QDisposes \<Rightarrow> e_dispose E x w
      | _ \<Rightarrow> e_updateNode E x w)"

text \<open>\<open>items[i] = null\<close> in the queue \<open>q\<close>.\<close>

definition take_item :: "qname \<Rightarrow> nat \<Rightarrow> ('v, 'x) world \<Rightarrow> ('v, 'x) world" where
  "take_item q i w =
     set_queue q ((get_queue q w)\<lparr>queue_items := assign (queue_items (get_queue q w)) i None\<rparr>) w"

text \<open>
  \<open>Queue.run\<close>, from the index \<open>i\<close>: the item is taken and its place set to \<open>null\<close>, the
  function of the queue is called on it, and whatever it throws goes to \<open>handleError\<close>;
  what \<open>handleError\<close> throws leaves the loop. The size is read at each step and is
  reset after the last.
\<close>

definition queue_run_in ::
  "nat \<Rightarrow> ('v, 'x) table \<Rightarrow> qname \<Rightarrow> nat \<Rightarrow> ('v, 'x) world \<Rightarrow> (unit, 'v, 'x) result" where
  "queue_run_in n E q i w =
     (if i < queue_size (get_queue q w) then
        (case (case get_at (queue_items (get_queue q w)) i of
                 None \<Rightarrow> Raised JsTypeError (take_item q i w)
               | Some x \<Rightarrow> queue_fn E q x (take_item q i w)) of
           Done u w2 \<Rightarrow> e_queue_run E q (i + 1) w2
         | Raised e w2 \<Rightarrow> bindR (handleError n E e w2) (\<lambda>u. e_queue_run E q (i + 1))
         | OutOfFuel \<Rightarrow> OutOfFuel)
      else Done () (set_queue q ((get_queue q w)\<lparr>queue_size := 0\<rparr>) w))"

text \<open>
  The loops of \<open>runEffects\<close> over the set of pending effects (render effects are
  updated, the others collected) and over the collected ones.
\<close>

definition try_update ::
  "nat \<Rightarrow> ('v, 'x) table \<Rightarrow> nat \<Rightarrow> ('v, 'x) world \<Rightarrow> (unit, 'v, 'x) result" where
  "try_update n E o' w =
     (case e_updateNode E o' w of
        Done u w1 \<Rightarrow> Done () w1
      | Raised e w1 \<Rightarrow> handleError n E e w1
      | OutOfFuel \<Rightarrow> OutOfFuel)"

fun effectsPass ::
  "nat \<Rightarrow> ('v, 'x) table \<Rightarrow> nat list \<Rightarrow> nat list \<Rightarrow> ('v, 'x) world
     \<Rightarrow> (nat list, 'v, 'x) result" where
  "effectsPass n E [] afterEffects w = Done afterEffects w"
| "effectsPass n E (o' # os) afterEffects w =
     (if o_type (w_obs w o') = TRenderEffect
      then bindR (try_update n E o' w) (\<lambda>u. effectsPass n E os afterEffects)
      else effectsPass n E os (afterEffects @ [o']) w)"

fun afterPass ::
  "nat \<Rightarrow> ('v, 'x) table \<Rightarrow> nat list \<Rightarrow> ('v, 'x) world \<Rightarrow> (unit, 'v, 'x) result" where
  "afterPass n E [] w = Done () w"
| "afterPass n E (o' # os) w = bindR (try_update n E o' w) (\<lambda>u. afterPass n E os)"

text \<open>
  The loop of \<open>runEffects\<close> over the queue of effects, from the index \<open>i\<close>; the size is
  read at each step, as an update can add effects to the queue.
\<close>

definition effectsLoop_in ::
  "nat \<Rightarrow> ('v, 'x) table \<Rightarrow> nat \<Rightarrow> nat list \<Rightarrow> ('v, 'x) world
     \<Rightarrow> (nat list, 'v, 'x) result" where
  "effectsLoop_in n E i afterEffects w =
     (if i < queue_size (w_Effects w) then
        (case get_at (queue_items (w_Effects w)) i of
           None \<Rightarrow>
             bindR (handleError n E JsTypeError w) (\<lambda>u. e_effectsLoop E (i + 1) afterEffects)
         | Some o' \<Rightarrow>
             if o_type (w_obs w o') = TRenderEffect
             then bindR (try_update n E o' w) (\<lambda>u. e_effectsLoop E (i + 1) afterEffects)
             else e_effectsLoop E (i + 1) (afterEffects @ [o']) w)
      else Done afterEffects w)"

text \<open>\<open>runEffects()\<close>.\<close>

definition runEffects_in ::
  "nat \<Rightarrow> ('v, 'x) table \<Rightarrow> ('v, 'x) world \<Rightarrow> (unit, 'v, 'x) result" where
  "runEffects_in n E w =
     bindR (case w_PendingEffects w of
              None \<Rightarrow> Done [] w
            | Some pe \<Rightarrow>
                bindR (effectsPass n E pe [] w)
                  (\<lambda>after w1. Done after (w1\<lparr>w_PendingEffects := None\<rparr>))) (\<lambda>after1 w2.
     bindR (if queue_size (w_Effects w2) > 0 then
              bindR (e_effectsLoop E 0 after1 w2)
                (\<lambda>after w3. Done after (w3\<lparr>w_Effects := (w_Effects w3)\<lparr>queue_size := 0\<rparr>\<rparr>))
            else Done after1 w2) (\<lambda>after2 w4.
     bindR (afterPass n E after2 w4) (\<lambda>u w5.
     bindR (if queue_size (w_Disposes w5) > 0 then e_queue_run E QDisposes 0 w5
            else Done () w5) (\<lambda>u w6.
     if queue_size (w_Changes w6) > 0 \<or> queue_size (w_Updates w6) > 0
     then e_runQueues E (w6\<lparr>w_Time := w_Time w6 + 1\<rparr>)
     else if queue_size (w_Effects w6) > 0
     then e_runEffects E (w6\<lparr>w_Time := w_Time w6 + 1\<rparr>)
     else Done () w6))))"

text \<open>The \<open>while\<close> loop of \<open>runQueues\<close>, one tick for each turn; \<open>count\<close> is its counter.\<close>

definition ticks_in ::
  "('v, 'x) table \<Rightarrow> nat \<Rightarrow> ('v, 'x) world \<Rightarrow> (unit, 'v, 'x) result" where
  "ticks_in E count w =
     (if queue_size (w_Changes w) > 0 \<or> queue_size (w_Updates w) > 0
         \<or> queue_size (w_Disposes w) > 0 then
        (let w1 = (if count > 0 then w\<lparr>w_Time := w_Time w + 1\<rparr> else w) in
         bindR (e_queue_run E QChanges 0 w1) (\<lambda>u w2.
         bindR (e_queue_run E QUpdates 0 w2) (\<lambda>u w3.
         bindR (e_queue_run E QDisposes 0 w3) (\<lambda>u w4.
         if count > 100000 then Raised RunawayClock w4
         else e_ticks E (count + 1)
                (if queue_size (w_Effects w4) > 0
                    \<and> (queue_size (w_Changes w4) > 0 \<or> queue_size (w_Updates w4) > 0)
                 then savePendingEffects w4 else w4)))))
      else Done () w)"

text \<open>\<open>runQueues()\<close>.\<close>

definition runQueues_in ::
  "('v, 'x) table \<Rightarrow> ('v, 'x) world \<Rightarrow> (unit, 'v, 'x) result" where
  "runQueues_in E w =
     (let running = w_IsRunning w;
          w1 = w\<lparr>w_IsRunning := True, w_Disposes := (w_Disposes w)\<lparr>queue_size := 0\<rparr>\<rparr>
      in bindR (e_ticks E 0 w1) (\<lambda>u w2.
         bindR (if queue_size (w_Effects w2) > 0 \<or> w_PendingEffects w2 \<noteq> None
                then e_runEffects E w2 else Done () w2) (\<lambda>u w3.
         Done () (w3\<lparr>w_IsRunning := running\<rparr>))))"

text \<open>\<open>event()\<close>, with its \<open>finally\<close>.\<close>

definition event_in ::
  "('v, 'x) table \<Rightarrow> ('v, 'x) world \<Rightarrow> (unit, 'v, 'x) result" where
  "event_in E w =
     (let owner = w_Owner w;
          w1 = w\<lparr>w_Updates := (w_Updates w)\<lparr>queue_size := 0\<rparr>, w_Time := w_Time w + 1\<rparr>
      in case e_runQueues E w1 of
           Done u w2 \<Rightarrow> Done () (w2\<lparr>w_IsRunning := False, w_Observer := None, w_Owner := owner\<rparr>)
         | Raised e w2 \<Rightarrow>
             Raised e (w2\<lparr>w_IsRunning := False, w_Observer := None, w_Owner := owner\<rparr>)
         | OutOfFuel \<Rightarrow> OutOfFuel)"

subsection \<open>The table of the functions\<close>

primrec engine :: "nat \<Rightarrow> ('v, 'x) table" where
  "engine 0 =
     \<lparr>e_markForDisposal = (\<lambda>ch p w. OutOfFuel), e_mark = (\<lambda>m o' w. OutOfFuel),
      e_markDownstream = (\<lambda>o' c d w. OutOfFuel), e_obs_call = (\<lambda>o' w. OutOfFuel),
      e_event = (\<lambda>w. OutOfFuel), e_runQueues = (\<lambda>w. OutOfFuel),
      e_ticks = (\<lambda>c w. OutOfFuel), e_queue_run = (\<lambda>q i w. OutOfFuel),
      e_runEffects = (\<lambda>w. OutOfFuel), e_effectsLoop = (\<lambda>i a w. OutOfFuel),
      e_updateNode = (\<lambda>o' w. OutOfFuel),
      e_liftObserver = (\<lambda>o' w. OutOfFuel), e_dispose = (\<lambda>o' w. OutOfFuel)\<rparr>"
| "engine (Suc n) =
     (let E = engine n in
      \<lparr>e_markForDisposal = markForDisposal_in E, e_mark = mark_in E,
       e_markDownstream = markDownstream_in E, e_obs_call = obs_call_in E,
       e_event = event_in E, e_runQueues = runQueues_in E,
       e_ticks = ticks_in E, e_queue_run = queue_run_in n E,
       e_runEffects = runEffects_in n E, e_effectsLoop = effectsLoop_in n E,
       e_updateNode = updateNode_in E, e_liftObserver = liftObserver_in E,
       e_dispose = dispose_in E\<rparr>)"

text \<open>The functions of the engine for calls nested at most \<open>n\<close> deep.\<close>

definition updateNode :: "nat \<Rightarrow> nat \<Rightarrow> ('v, 'x) world \<Rightarrow> (unit, 'v, 'x) result" where
  "updateNode n = e_updateNode (engine n)"

definition obs_call :: "nat \<Rightarrow> nat \<Rightarrow> ('v, 'x) world \<Rightarrow> ('v, 'v, 'x) result" where
  "obs_call n = e_obs_call (engine n)"

definition Queue_run :: "nat \<Rightarrow> qname \<Rightarrow> nat \<Rightarrow> ('v, 'x) world \<Rightarrow> (unit, 'v, 'x) result" where
  "Queue_run n = e_queue_run (engine n)"

definition event :: "nat \<Rightarrow> ('v, 'x) world \<Rightarrow> (unit, 'v, 'x) result" where
  "event n = e_event (engine n)"

definition runQueues :: "nat \<Rightarrow> ('v, 'x) world \<Rightarrow> (unit, 'v, 'x) result" where
  "runQueues n = e_runQueues (engine n)"

definition mark :: "nat \<Rightarrow> marker \<Rightarrow> nat \<Rightarrow> ('v, 'x) world \<Rightarrow> (unit, 'v, 'x) result" where
  "mark n = e_mark (engine n)"

declare engine.simps [simp del]

text \<open>\<open>batch(fn)\<close>, with its \<open>finally\<close>.\<close>

definition batch :: "nat \<Rightarrow> ('v, 'x) prog \<Rightarrow> ('v, 'x) world \<Rightarrow> ('v, 'v, 'x) result" where
  "batch n fn w =
     (if w_IsRunning w then exec (engine n) fn w
      else
        (case bindR (exec (engine n) fn
                       (w\<lparr>w_IsRunning := True, w_Changes := (w_Changes w)\<lparr>queue_size := 0\<rparr>\<rparr>))
                (\<lambda>v w1. bindR (e_event (engine n) w1) (\<lambda>u w2. Done v w2)) of
           Done v w' \<Rightarrow> Done v (w'\<lparr>w_IsRunning := False\<rparr>)
         | Raised e w' \<Rightarrow> Raised e (w'\<lparr>w_IsRunning := False\<rparr>)
         | OutOfFuel \<Rightarrow> OutOfFuel))"

text \<open>A sequence of writes to the source \<open>s\<close>, one after the other.\<close>

fun writes ::
  "('v, 'x) table \<Rightarrow> nat \<Rightarrow> ('v \<Rightarrow> 'v) list \<Rightarrow> ('v, 'x) world \<Rightarrow> (unit, 'v, 'x) result" where
  "writes E s [] w = Done () w"
| "writes E s (f # fs) w = bindR (src_write E s f w) (\<lambda>v. writes E s fs)"

text \<open>
  The world that a call leaves (\<open>w0\<close> when the bound was reached), and what it leaves for
  an observer of its outcome: the error, if it threw, and the log.
\<close>

definition after :: "('a, 'v, 'x) result \<Rightarrow> ('v, 'x) world \<Rightarrow> ('v, 'x) world" where
  "after r w0 = (case r of Done a w \<Rightarrow> w | Raised e w \<Rightarrow> w | OutOfFuel \<Rightarrow> w0)"

definition outcome ::
  "('a, 'v, 'x) result \<Rightarrow> ('x failure option \<times> ('v, 'x) event list) option" where
  "outcome r =
     (case r of
        Done a w \<Rightarrow> Some (None, w_trace w)
      | Raised e w \<Rightarrow> Some (Some e, w_trace w)
      | OutOfFuel \<Rightarrow> None)"

subsection \<open>Constructors and the initial module state\<close>

text \<open>\<open>new Observer(type, state, fn, value, eq)\<close>, made at the time \<open>t\<close> under the owner \<open>ow\<close>.\<close>

definition Observer_new ::
  "otype \<Rightarrow> int \<Rightarrow> ('v \<Rightarrow> ('v, 'x) prog) option \<Rightarrow> 'v \<Rightarrow> ('v \<Rightarrow> 'v \<Rightarrow> bool) option
     \<Rightarrow> int \<Rightarrow> nat option \<Rightarrow> ('v, 'x) observer" where
  "Observer_new ty st fn v eq t ow =
     \<lparr>o_type = ty, o_state = st, o_fn = fn, o_value = v, o_eq = eq, o_age = t, o_owner = ow,
      o_owned = None, o_ctx = None, o_cleanups = None, o_src1 = None, o_src1Slot = 0,
      o_srcs = None, o_srcSlots = None, o_deps = None, o_depSlot = 0, o_depsCount = 0,
      o_sub = None\<rparr>"

text \<open>\<open>new Source(value, equals)\<close>, \<open>new SourceSub()\<close> and \<open>new Queue(fn)\<close>.\<close>

definition Source_new :: "'v \<Rightarrow> ('v \<Rightarrow> 'v \<Rightarrow> bool) option \<Rightarrow> 'v source" where
  "Source_new v eq =
     \<lparr>src_value = v, src_pending = None, src_sub = None, src_locked = 0, src_eq = eq\<rparr>"

definition SourceSub_new :: subscription where
  "SourceSub_new = \<lparr>sub_obs1 = None, sub_obs1Slot = 0, sub_obs = None, sub_obsSlots = None\<rparr>"

definition Queue_new :: queue where
  "Queue_new = \<lparr>queue_items = [], queue_size = 0\<rparr>"

text \<open>
  The module state after load, over a heap whose cells hold the value \<open>d\<close>: no observer
  runs, the clock is at 0, the queues are empty.
\<close>

definition initial :: "'v \<Rightarrow> ('v, 'x) world" where
  "initial d =
     \<lparr>w_src = (\<lambda>s. Source_new d None),
      w_obs = (\<lambda>k. Observer_new TRoot Actual None d None 0 None),
      w_sub = (\<lambda>b. SourceSub_new), w_nextSub = 0, w_Observer = None, w_Owner = None,
      w_Pending = None, w_Time = 0, w_IsRunning = False, w_PendingEffects = None,
      w_Changes = Queue_new, w_Updates = Queue_new, w_Disposes = Queue_new,
      w_Effects = Queue_new, w_trace = []\<rparr>"


subsection \<open>What a call can change of the values of the observers\<close>

text \<open>
  The value that the observer \<open>x\<close> holds after the events \<open>t\<close> when it held \<open>d\<close> before
  them: the value of the last run of its function that returned, \<open>d\<close> when there is none.
\<close>

fun latest :: "nat \<Rightarrow> ('v, 'x) event list \<Rightarrow> 'v \<Rightarrow> 'v" where
  "latest x [] d = d"
| "latest x (ev # t) d =
     latest x t (case ev of Returned y v \<Rightarrow> if y = x then v else d | _ \<Rightarrow> d)"


text \<open>
  The log and the values of the observers in a world, and the relation between these in
  two worlds: the log has grown, and every observer holds the value of its last run
  that returned in between.
\<close>

definition view :: "('v, 'x) world \<Rightarrow> ('v, 'x) event list \<times> (nat \<Rightarrow> 'v)" where
  "view w = (w_trace w, \<lambda>x. o_value (w_obs w x))"

definition vrel ::
  "('v, 'x) event list \<times> (nat \<Rightarrow> 'v) \<Rightarrow> ('v, 'x) event list \<times> (nat \<Rightarrow> 'v) \<Rightarrow> bool" where
  "vrel a b \<longleftrightarrow> (\<exists>t. fst b = fst a @ t \<and> (\<forall>x. snd b x = latest x t (snd a x)))"

definition keeps :: "('v, 'x) world \<Rightarrow> ('a, 'v, 'x) result \<Rightarrow> bool" where
  "keeps w r =
     (case r of
        Done a w' \<Rightarrow> vrel (view w) (view w')
      | Raised e w' \<Rightarrow> vrel (view w) (view w')
      | OutOfFuel \<Rightarrow> True)"



section \<open>Small graphs\<close>

text \<open>The graphs are over integers; the module state after load is \<open>idle\<close>.\<close>

definition idle :: "(int, unit) world" where
  "idle = initial 0"

text \<open>
  A source 0 with the value 5 and a memo 1 that is subscribed to it and holds 7. The
  function of the memo reads the source and then the memo itself, and returns the sum;
  in \<open>w_self\<close> the second read is inside \<open>untrack\<close>, in \<open>w_circular\<close> it is not.
\<close>

definition self_graph :: "(int \<Rightarrow> (int, unit) prog) \<Rightarrow> (int, unit) world" where
  "self_graph fn =
     idle
       \<lparr>w_src := (w_src idle)(0 := (Source_new 5 (Some (=)))\<lparr>src_sub := Some 0\<rparr>),
        w_obs := (w_obs idle)
           (1 := (Observer_new TMemo Actual (Some fn) 7 (Some (=)) 0 None)
                   \<lparr>o_src1 := Some 0, o_src1Slot := - 1\<rparr>),
        w_sub := (w_sub idle)(0 := SourceSub_new\<lparr>sub_obs1 := Some 1, sub_obs1Slot := - 1\<rparr>),
        w_nextSub := 1\<rparr>"

definition w_self :: "(int, unit) world" where
  "w_self =
     self_graph
       (\<lambda>v. ReadSource 0
               (\<lambda>a. Untrack (ReadObserver 1 (\<lambda>x. Return (x + a))) (\<lambda>r. Return r)))"

definition w_circular :: "(int, unit) world" where
  "w_circular = self_graph (\<lambda>v. ReadSource 0 (\<lambda>a. ReadObserver 1 (\<lambda>x. Return (x + a))))"

text \<open>The memo of \<open>w_circular\<close> while its function runs in a tick.\<close>

definition w_running :: "(int, unit) world" where
  "w_running =
     (obs_upd 1 (\<lambda>t. t\<lparr>o_state := Running', o_age := 1\<rparr>) w_circular)
       \<lparr>w_Owner := Some 1, w_Observer := Some 1, w_Time := 1, w_IsRunning := True\<rparr>"

text \<open>
  A root 3 that owns two memos 1 and 2, both subscribed to the source 0, which holds 5.
  The function of memo 1 throws when the source holds more than 5; the function of
  memo 2 returns the successor of the source. \<open>ctx\<close> is the context of the root.
\<close>

definition pair_graph ::
  "(nat \<times> (unit failure \<Rightarrow> (int, unit) prog)) list option option \<Rightarrow> (int, unit) world" where
  "pair_graph ctx =
     idle
       \<lparr>w_src := (w_src idle)(0 := (Source_new 5 (Some (=)))\<lparr>src_sub := Some 0\<rparr>),
        w_obs := (w_obs idle)
           (1 := (Observer_new TMemo Actual
                    (Some (\<lambda>v. ReadSource 0
                                  (\<lambda>a. if a > 5 then Throw (Thrown ()) else Return a)))
                    5 (Some (=)) 0 (Some 3))
                   \<lparr>o_src1 := Some 0, o_src1Slot := - 1\<rparr>,
            2 := (Observer_new TMemo Actual
                    (Some (\<lambda>v. ReadSource 0 (\<lambda>a. Return (a + 1)))) 6 (Some (=)) 0 (Some 3))
                   \<lparr>o_src1 := Some 0, o_src1Slot := 0\<rparr>,
            3 := (Observer_new TRoot Actual None 0 None 0 None)
                   \<lparr>o_owned := Some [1, 2], o_ctx := ctx\<rparr>),
        w_sub := (w_sub idle)
           (0 := \<lparr>sub_obs1 = Some 1, sub_obs1Slot = - 1, sub_obs = Some [Some 2],
                  sub_obsSlots = Some [Some (- 1)]\<rparr>),
        w_nextSub := 1\<rparr>"

text \<open>The root without a handler, and with the handler 0, which returns.\<close>

definition w_unhandled :: "(int, unit) world" where
  "w_unhandled = pair_graph None"

definition w_handled :: "(int, unit) world" where
  "w_handled = pair_graph (Some (Some [(0, \<lambda>e. Return 0)]))"

text \<open>
  \<open>w_handled\<close> in the tick of a write of 6 to the source, when the queue of changes has
  been run and the queue of updates holds the two memos.
\<close>

definition w_flush :: "(int, unit) world" where
  "w_flush =
     after (Queue_run 5 QChanges 0
              ((enqueue QChanges 0 (src_upd 0 (\<lambda>r. r\<lparr>src_pending := Some 6\<rparr>) w_handled))
                 \<lparr>w_Time := 1, w_IsRunning := True\<rparr>)) idle"

text \<open>
  A source 0 that holds 5, a memo 1 that holds its parity, a memo 2 that reads memo 1,
  and a memo 3 that reads memo 1 and the source; the subscriptions are as the first
  runs of the three functions, in this order, make them.
\<close>

definition tri_graph :: "(int, unit) world" where
  "tri_graph =
     idle
       \<lparr>w_src := (w_src idle)(0 := (Source_new 5 (Some (=)))\<lparr>src_sub := Some 0\<rparr>),
        w_obs := (w_obs idle)
           (1 := (Observer_new TMemo Actual
                    (Some (\<lambda>v. ReadSource 0 (\<lambda>a. Return (a mod 2)))) 1 (Some (=)) 0 None)
                   \<lparr>o_src1 := Some 0, o_src1Slot := - 1, o_sub := Some 1\<rparr>,
            2 := (Observer_new TMemo Actual
                    (Some (\<lambda>v. ReadObserver 1 (\<lambda>a. Return (a + 10)))) 11 (Some (=)) 0 None)
                   \<lparr>o_src1 := Some 1, o_src1Slot := - 1\<rparr>,
            3 := (Observer_new TMemo Actual
                    (Some (\<lambda>v. ReadObserver 1 (\<lambda>a. ReadSource 0 (\<lambda>b. Return (a + b)))))
                    6 (Some (=)) 0 None)
                   \<lparr>o_src1 := Some 1, o_src1Slot := 0, o_srcs := Some [0],
                     o_srcSlots := Some [Some 0]\<rparr>),
        w_sub := (w_sub idle)
           (0 := \<lparr>sub_obs1 = Some 1, sub_obs1Slot = - 1, sub_obs = Some [Some 3],
                  sub_obsSlots = Some [Some 0]\<rparr>,
            1 := \<lparr>sub_obs1 = Some 2, sub_obs1Slot = - 1, sub_obs = Some [Some 3],
                  sub_obsSlots = Some [Some (- 1)]\<rparr>),
        w_nextSub := 2\<rparr>"


text \<open>
  Two functions for \<open>batch\<close>. The first locks the source 0, writes 7 and then 8 to it,
  and unlocks it. The second writes 6 to the source before it does the same with one
  write of 7.
\<close>

definition locked_writes :: "(int, unit) prog" where
  "locked_writes =
     Lock 0 (WriteSource 0 (\<lambda>v. 7) (WriteSource 0 (\<lambda>v. 8) (Unlock 0 (Return 0))))"

definition write_then_lock :: "(int, unit) prog" where
  "write_then_lock =
     WriteSource 0 (\<lambda>v. 6) (Lock 0 (WriteSource 0 (\<lambda>v. 7) (Unlock 0 (Return 0))))"


section \<open>Properties of \<open>reconcile\<close>\<close>

lemmas reconcile_eval =
  reconcile_def init_state_def reconcile_step_def final_pass_def bindE_def
  at_def put_def splice_def slice_def first_def indexOf_def
  nextSibling_def insertBefore_def removeChild_def replaceChild_def
  skip_prefix_def skip_suffix_def swap_ends_def move_rtl_def move_ltr_def
  subsequenceIndex_def one_to_many_def fastPaths_def init_advanced_def
  next_end_changed_def current_end_changed_def replace_ends_def insert_ends_def
  remove_ends_def analyze_def rtl_phase_def ltr_phase_def rearrange_def
  count_while.simps subseq_mismatch.simps replace_run.simps insert_run.simps
  remove_run.simps find_target.simps reconcile_loop.simps Let_def upto.simps

text \<open>
  C2. For six distinct nodes \<open>a\<close>, \<open>b\<close>, \<open>c\<close>, \<open>d\<close>, \<open>e\<close>, \<open>f\<close> and a new node \<open>h\<close>,
  \<open>reconcile\<close> of the current list \<open>[a, b, c, d, e, f]\<close> with the next list
  \<open>[a, c, b, h, f, e]\<close> calls exactly three mutations on the parent: it moves \<open>c\<close> before
  \<open>b\<close>, replaces \<open>d\<close> by \<open>h\<close> and moves \<open>f\<close> before \<open>e\<close>. The children of the parent and
  the \<open>current\<close> array are then the next list. Six iterations of the main loop are enough,
  and more change nothing.
\<close>

theorem reconcile_small_reorder:
  assumes "distinct [a, b, c, d, e, f, h]"
  shows "reconcile (6 + n) \<lparr>children = [a, b, c, d, e, f], ops = os\<rparr>
           [a, b, c, d, e, f] [a, c, b, h, f, e]
         = Some (Inr (\<lparr>children = [a, c, b, h, f, e],
                       ops = os @ [InsertBefore c (Node b), ReplaceChild h d,
                                   InsertBefore f (Node e)]\<rparr>,
                      map Node [a, c, b, h, f, e]))"
proof -
  have ne: "a \<noteq> b" "a \<noteq> c" "a \<noteq> d" "a \<noteq> e" "a \<noteq> f" "a \<noteq> h"
    "b \<noteq> a" "b \<noteq> c" "b \<noteq> d" "b \<noteq> e" "b \<noteq> f" "b \<noteq> h"
    "c \<noteq> a" "c \<noteq> b" "c \<noteq> d" "c \<noteq> e" "c \<noteq> f" "c \<noteq> h"
    "d \<noteq> a" "d \<noteq> b" "d \<noteq> c" "d \<noteq> e" "d \<noteq> f" "d \<noteq> h"
    "e \<noteq> a" "e \<noteq> b" "e \<noteq> c" "e \<noteq> d" "e \<noteq> f" "e \<noteq> h"
    "f \<noteq> a" "f \<noteq> b" "f \<noteq> c" "f \<noteq> d" "f \<noteq> e" "f \<noteq> h"
    "h \<noteq> a" "h \<noteq> b" "h \<noteq> c" "h \<noteq> d" "h \<noteq> e" "h \<noteq> f"
    using assms by auto
  show ?thesis
    by (simp add: reconcile_eval ne)
qed

theorem reconcile_small_reorder_witness:
  "distinct [0, 1, 2, 3, 4, 5, 7 :: nat] \<and>
   reconcile 6 \<lparr>children = [0, 1, 2, 3, 4, 5 :: nat], ops = []\<rparr>
     [0, 1, 2, 3, 4, 5] [0, 2, 1, 7, 5, 4]
   = Some (Inr (\<lparr>children = [0, 2, 1, 7, 5, 4],
                 ops = [InsertBefore 2 (Node 1), ReplaceChild 7 3, InsertBefore 5 (Node 4)]\<rparr>,
                map Node [0, 2, 1, 7, 5, 4]))"
  using reconcile_small_reorder [of 0 1 2 3 4 5 "7 :: nat" 0 "[]"] by simp

text \<open>
  C10. With an empty current list and a non-empty next list the main loop is not
  entered and the final pass reads \<open>nextSibling\<close> of \<open>current[-1]\<close>, which is
  \<open>undefined\<close>: \<open>reconcile\<close> raises a \<open>TypeError\<close> and has called no mutation on the parent
  (the parent is as it was). So the branch is only excluded for calls with a non-empty
  current list or an empty next list.
\<close>

theorem reconcile_empty_current_raises:
  "nxt \<noteq> [] \<Longrightarrow> reconcile fuel p [] nxt = Some (Inl (TypeError, p))"
  by (simp add: reconcile_def init_state_def final_pass_def bindE_def nextSibling_def
      at_def reconcile_loop.simps)

theorem reconcile_empty_current_raises_witness:
  "[1 :: nat] \<noteq> [] \<and>
   reconcile 0 \<lparr>children = [], ops = []\<rparr> [] [1 :: nat]
   = Some (Inl (TypeError, \<lparr>children = [], ops = []\<rparr>))"
  using reconcile_empty_current_raises [of "[1 :: nat]" 0 "\<lparr>children = [], ops = []\<rparr>"]
  by simp


section \<open>A run of nodes inserted or removed\<close>

lemma at_Node: "i < length xs \<Longrightarrow> at (map Node xs) (int i) = Node (xs ! i)"
  by (simp add: at_def)

lemma at_beyond: "length xs \<le> i \<Longrightarrow> at (map Node xs) (int i) = Undefined"
  by (simp add: at_def)









lemma remove_run:
  assumes "distinct (P @ M @ S)"
    and "cur = map Node (C @ M @ Z)" and "a = int (length C)"
  shows "forE (length M) a (\<lambda>j q. removeChild q (at cur j))
           \<lparr>children = P @ M @ S, ops = os\<rparr>
         = Inr \<lparr>children = P @ S, ops = os @ map RemoveChild M\<rparr>"
  using assms
proof (induction M arbitrary: C a os)
  case Nil
  then show ?case by simp
next
  case (Cons m M)
  have at: "at cur a = Node m"
    using Cons.prems(2,3) at_Node [of "length C" "C @ m # M @ Z"] by simp
  have "m \<notin> set P" using Cons.prems(1) by auto
  then have one: "removeChild \<lparr>children = P @ m # M @ S, ops = os\<rparr> (Node m)
      = Inr \<lparr>children = P @ M @ S, ops = os @ [RemoveChild m]\<rparr>"
    by (simp add: removeChild_def remove1_append)
  have "forE (length M) (a + 1) (\<lambda>j q. removeChild q (at cur j))
          \<lparr>children = P @ M @ S, ops = os @ [RemoveChild m]\<rparr>
        = Inr \<lparr>children = P @ S, ops = (os @ [RemoveChild m]) @ map RemoveChild M\<rparr>"
    using Cons.prems by (intro Cons.IH [where C = "C @ [m]"]) simp_all
  then show ?case
    by (simp add: at one bindE_def)
qed










text \<open>
  Two calls on which the children are not made the next list. A node put before the
  whole current list: the loop skips the common suffix down to the start, and the
  final pass reads \<open>nextSibling\<close> of \<open>current[-1]\<close>. A next list that is not a part of
  the current one but starts with a node of it: \<open>subsequenceIndex\<close> gives the index of
  that node without comparing the rest when too few nodes follow it, and the fast path
  only removes the node before it.
\<close>

lemma reconcile_prepend_raises:
  "reconcile 2 \<lparr>children = [0 :: nat], ops = []\<rparr> [0] [1, 0]
     = Some (Inl (TypeError, \<lparr>children = [0], ops = []\<rparr>))"
  by (simp add: reconcile_eval eval_nat_numeral)

lemma reconcile_subsequence_slip:
  "reconcile 3 \<lparr>children = [0, 1, 2 :: nat], ops = []\<rparr> [0, 1, 2] [1, 10]
     = Some (Inr (\<lparr>children = [1, 2], ops = [RemoveChild 0]\<rparr>, map Node [0, 1, 2]))"
  by (simp add: reconcile_eval eval_nat_numeral)


section \<open>Properties of the AsynX microtask queue\<close>











section \<open>Properties of \<open>indexArray\<close>\<close>

lemma take_assign: "n \<le> i \<Longrightarrow> n \<le> length xs \<Longrightarrow> take n (assign xs i v) = take n xs"
  by (auto simp: assign_def)

lemma length_assign: "length xs \<le> length (assign xs i v)"
  by (auto simp: assign_def)

lemma kept_len:
  "kept prev nxt s s1 evs \<Longrightarrow> length (mapped s) = length prev \<Longrightarrow> length prev \<le> length (mapped s1)"
  by (metis kept_def length_take min.cobounded1 min_def nat_le_linear take_all)

lemma update_at_kept:
  assumes k: "kept prev nxt s s1 evs"
    and it: "items s = map Item prev"
    and len: "length (mapped s) = length prev" "length (disposers s) = length prev"
             "length (sources s) = length prev"
    and def: "\<forall>i < length prev. sources s ! i \<noteq> None"
    and i: "i < length nxt"
  shows "\<exists>s2 ev. update_at nxt i s1 = Inr s2 \<and> kept prev nxt s s2 (evs @ ev) \<and>
           (i < length prev \<and> prev ! i \<noteq> nxt ! i \<longrightarrow>
              SourceCall i (the (sources s ! i)) (nxt ! i) \<in> set ev)"
proof -
  have its: "items s1 = map Item prev" using k it by (simp add: kept_def)
  have lm: "length prev \<le> length (mapped s1)" "length prev \<le> length (sources s1)"
    "length prev \<le> length (disposers s1)"
    using k len unfolding kept_def
    by (metis length_take min.cobounded1 min_def nat_le_linear take_all)+
  show ?thesis
  proof (cases "i < length prev")
    case True
    then have src: "get_at (sources s1) i = sources s ! i"
      using k lm(2) unfolding kept_def get_at_def
      by (metis (no_types, lifting) le_trans linorder_not_le nth_take)
    obtain src' where s': "sources s ! i = Some src'" using def True by auto
    show ?thesis
    proof (cases "prev ! i = nxt ! i")
      case eq: True
      then have "update_at nxt i s1 = Inr s1" using True its by (simp add: update_at_def)
      then show ?thesis using k eq by (intro exI [of _ s1] exI [of _ "[]"]) simp
    next
      case ne: False
      let ?s2 = "s1\<lparr>ilog := ilog s1 @ [SourceCall i src' (nxt ! i)]\<rparr>"
      have u: "update_at nxt i s1 = Inr ?s2"
        using True its ne src s' by (simp add: update_at_def)
      have g: "good_event prev nxt s (SourceCall i src' (nxt ! i))"
        using True i ne s' by (simp add: good_event_def)
      have "kept prev nxt s ?s2 (evs @ [SourceCall i src' (nxt ! i)])"
        using k g by (simp add: kept_def)
      then show ?thesis using u s'
        by (intro exI [of _ ?s2] exI [of _ "[SourceCall i src' (nxt ! i)]"]) simp
    qed
  next
    case False
    then have ge: "length prev \<le> i" by simp
    have notlt: "\<not> i < length (items s1)" using its ge by simp
    show ?thesis
    proof (cases "case pool s1 of None \<Rightarrow> None | Some p \<Rightarrow> map_of p (int i)")
      case None
      let ?s2 = "mapper (nxt ! i) i s1"
      have u: "update_at nxt i s1 = Inr ?s2" using notlt None by (simp add: update_at_def)
      have g: "good_event prev nxt s (Constructed i (fresh s1) (nxt ! i))"
        using ge i by (simp add: good_event_def)
      have "kept prev nxt s ?s2 (evs @ [Constructed i (fresh s1) (nxt ! i)])"
        using k g ge lm by (simp add: kept_def mapper_def set_at_def take_assign)
      then show ?thesis using u False
        by (intro exI [of _ ?s2] exI [of _ "[Constructed i (fresh s1) (nxt ! i)]"]) simp
    next
      case (Some pi)
      let ?s2 = "recycleFromPool i pi s1"
      have u: "update_at nxt i s1 = Inr ?s2" using notlt Some by (simp add: update_at_def)
      have g: "good_event prev nxt s (Recycled i)"
        using ge i by (simp add: good_event_def)
      have "kept prev nxt s ?s2 (evs @ [Recycled i])"
        using k g ge lm by (simp add: kept_def recycleFromPool_def take_assign)
      then show ?thesis using u False
        by (intro exI [of _ ?s2] exI [of _ "[Recycled i]"]) simp
    qed
  qed
qed

lemma loop1_kept:
  assumes it: "items s = map Item prev"
    and len: "length (mapped s) = length prev" "length (disposers s) = length prev"
             "length (sources s) = length prev"
    and def: "\<forall>i < length prev. sources s ! i \<noteq> None"
  shows "kept prev nxt s s1 evs \<Longrightarrow> \<forall>i\<in>set is. i < length nxt \<Longrightarrow>
     \<exists>s2 ev. eachE (update_at nxt) is s1 = Inr s2 \<and> kept prev nxt s s2 (evs @ ev) \<and>
       (\<forall>i\<in>set is. i < length prev \<and> prev ! i \<noteq> nxt ! i \<longrightarrow>
              SourceCall i (the (sources s ! i)) (nxt ! i) \<in> set ev)"
proof (induction "is" arbitrary: s1 evs)
  case Nil
  then show ?case by (intro exI [of _ s1] exI [of _ "[]"]) simp
next
  case (Cons i "is")
  have i: "i < length nxt" using Cons.prems(2) by simp
  from update_at_kept [OF Cons.prems(1) it len def i]
  obtain s2 ev where s2: "update_at nxt i s1 = Inr s2" "kept prev nxt s s2 (evs @ ev)"
    "i < length prev \<and> prev ! i \<noteq> nxt ! i \<longrightarrow>
              SourceCall i (the (sources s ! i)) (nxt ! i) \<in> set ev" by blast
  have rest: "\<forall>i\<in>set is. i < length nxt" using Cons.prems(2) by simp
  from Cons.IH [OF s2(2) rest]
  obtain s3 ev' where s3: "eachE (update_at nxt) is s2 = Inr s3"
    "kept prev nxt s s3 ((evs @ ev) @ ev')"
    "\<forall>i\<in>set is. i < length prev \<and> prev ! i \<noteq> nxt ! i \<longrightarrow>
              SourceCall i (the (sources s ! i)) (nxt ! i) \<in> set ev'" by blast
  show ?case using s2 s3
    by (intro exI [of _ s3] exI [of _ "ev @ ev'"]) auto
qed

lemma remove_at_kept:
  assumes k: "kept prev nxt s s1 evs"
    and len: "length (disposers s) = length prev"
    and def: "\<forall>i < length prev. disposers s ! i \<noteq> None"
    and i: "length nxt \<le> i" "i < length prev"
  shows "\<exists>s2 ev. remove_at opts (length nxt) i s1 = Inr s2 \<and> kept prev nxt s s2 (evs @ ev)"
proof (cases "pool s1")
  case None
  have lm: "length prev \<le> length (disposers s1)"
    using k len unfolding kept_def
    by (metis length_take min.cobounded1 min_def nat_le_linear take_all)
  have d: "get_at (disposers s1) i = disposers s ! i"
    using k lm i(2) unfolding kept_def get_at_def
    by (metis (no_types, lifting) le_trans linorder_not_le nth_take)
  obtain d' where d': "disposers s ! i = Some d'" using def i(2) by auto
  let ?s2 = "s1\<lparr>ilog := ilog s1 @ [DisposerCalled i d']\<rparr>"
  have u: "remove_at opts (length nxt) i s1 = Inr ?s2"
    using None d d' by (simp add: remove_at_def call_disposer_def)
  have g: "good_event prev nxt s (DisposerCalled i d')" using i by (simp add: good_event_def)
  have "kept prev nxt s ?s2 (evs @ [DisposerCalled i d'])" using k g by (simp add: kept_def)
  then show ?thesis using u by blast
next
  case (Some p)
  let ?s2 = "saveInPool opts (length nxt) i s1"
  have u: "remove_at opts (length nxt) i s1 = Inr ?s2" using Some by (simp add: remove_at_def)
  have g: "good_event prev nxt s (PoolSaved i)" using i by (simp add: good_event_def)
  have "kept prev nxt s ?s2 (evs @ [PoolSaved i])"
    using k g Some by (simp add: kept_def saveInPool_def Let_def)
  then show ?thesis using u by blast
qed

lemma loop2_kept:
  assumes len: "length (disposers s) = length prev"
    and def: "\<forall>i < length prev. disposers s ! i \<noteq> None"
  shows "kept prev nxt s s1 evs \<Longrightarrow> \<forall>i\<in>set is. length nxt \<le> i \<and> i < length prev \<Longrightarrow>
     \<exists>s2 ev. eachE (remove_at opts (length nxt)) is s1 = Inr s2 \<and> kept prev nxt s s2 (evs @ ev)"
proof (induction "is" arbitrary: s1 evs)
  case Nil
  then show ?case by (intro exI [of _ s1] exI [of _ "[]"]) simp
next
  case (Cons i "is")
  have i: "length nxt \<le> i" "i < length prev" using Cons.prems(2) by simp_all
  from remove_at_kept [OF Cons.prems(1) len def i]
  obtain s2 ev where s2: "remove_at opts (length nxt) i s1 = Inr s2"
    "kept prev nxt s s2 (evs @ ev)" by blast
  have rest: "\<forall>i\<in>set is. length nxt \<le> i \<and> i < length prev" using Cons.prems(2) by simp
  from Cons.IH [OF s2(2) rest]
  obtain s3 ev' where s3: "eachE (remove_at opts (length nxt)) is s2 = Inr s3"
    "kept prev nxt s s3 ((evs @ ev) @ ev')" by blast
  show ?case using s2 s3 by (intro exI [of _ s3] exI [of _ "ev @ ev'"]) auto
qed

text \<open>
  C8. Let the memoized state hold the mapped entries of a non-empty list \<open>prev\<close> (no
  fallback entry), and let \<open>indexArray\<close> run on a non-empty list \<open>nxt\<close>. The run returns,
  and the first \<open>min |prev| |nxt|\<close> mapped entries are the entries that were there: none
  of them is disposed, pooled, made anew or recycled. At each position of that prefix
  whose value changed, the source of the position is called with the new value, and
  nothing else happens there. Entries are made (or recycled from the pool) only at
  positions from \<open>|prev|\<close> on, and disposed (or pooled) only at positions from \<open>|nxt|\<close>
  on.
\<close>

theorem indexArray_prefix:
  assumes ne: "prev \<noteq> []" "nxt \<noteq> []"
    and it: "items s = map Item prev"
    and len: "length (mapped s) = length prev" "length (disposers s) = length prev"
             "length (sources s) = length prev"
    and def: "\<forall>i < length prev. sources s ! i \<noteq> None \<and> disposers s ! i \<noteq> None"
  shows "\<exists>s' evs. index_update opts nxt s = Inr s' \<and>
           take (min (length prev) (length nxt)) (mapped s')
             = take (min (length prev) (length nxt)) (mapped s) \<and>
           ilog s' = ilog s @ evs \<and>
           (\<forall>e\<in>set evs. good_event prev nxt s e) \<and>
           (\<forall>i < min (length prev) (length nxt). prev ! i \<noteq> nxt ! i \<longrightarrow>
              SourceCall i (the (sources s ! i)) (nxt ! i) \<in> set evs)"
proof -
  have d1: "\<forall>i < length prev. sources s ! i \<noteq> None" using def by simp
  have d2: "\<forall>i < length prev. disposers s ! i \<noteq> None" using def by simp
  have k0: "kept prev nxt s s []" using len by (simp add: kept_def)
  have nofb: "\<not> (items s \<noteq> [] \<and> hd (items s) = FALLBACK)"
    using it ne(1) by (cases prev) simp_all
  have r1: "\<forall>i\<in>set [0..<length nxt]. i < length nxt" by simp
  from loop1_kept [OF it len d1 k0 r1]
  obtain s3 ev1 where s3: "eachE (update_at nxt) [0..<length nxt] s = Inr s3"
    "kept prev nxt s s3 ([] @ ev1)"
    "\<forall>i\<in>set [0..<length nxt]. i < length prev \<and> prev ! i \<noteq> nxt ! i \<longrightarrow>
              SourceCall i (the (sources s ! i)) (nxt ! i) \<in> set ev1" by blast
  have its3: "length (items s3) = length prev" using s3(2) it by (simp add: kept_def)
  have r2: "\<forall>i\<in>set [length nxt..<length (items s3)]. length nxt \<le> i \<and> i < length prev"
    using its3 by simp
  from loop2_kept [OF len(2) d2 s3(2) r2]
  obtain s4 ev2 where s4:
    "eachE (remove_at opts (length nxt)) [length nxt..<length (items s3)] s3 = Inr s4"
    "kept prev nxt s s4 (([] @ ev1) @ ev2)" by blast
  let ?s' = "s4\<lparr>len := length nxt,
                sources := set_length (sources s4) (length nxt),
                disposers := set_length (disposers s4) (length nxt),
                items := map Item nxt,
                mapped := take (length nxt) (mapped s4)\<rparr>"
  have run: "index_update opts nxt s = Inr ?s'"
  proof -
    have l: "\<not> length nxt = 0" using ne(2) by simp
    show ?thesis
      unfolding index_update_def if_not_P [OF l] if_not_P [OF nofb]
      by (simp add: bindE_def s3(1) s4(1))
  qed
  have m: "take (min (length prev) (length nxt)) (mapped ?s')
             = take (min (length prev) (length nxt)) (mapped s)"
  proof -
    have e: "mapped s = take (length prev) (mapped s4)" using s4(2) by (simp add: kept_def)
    show ?thesis unfolding e by (simp add: min_def)
  qed
  have lg: "ilog ?s' = ilog s @ (ev1 @ ev2)" using s4(2) by (simp add: kept_def)
  have gd: "\<forall>e\<in>set (ev1 @ ev2). good_event prev nxt s e" using s4(2) by (simp add: kept_def)
  have sc: "\<forall>i < min (length prev) (length nxt). prev ! i \<noteq> nxt ! i \<longrightarrow>
              SourceCall i (the (sources s ! i)) (nxt ! i) \<in> set (ev1 @ ev2)"
    using s3(3) by simp
  show ?thesis
    apply (rule exI [of _ ?s'])
    apply (rule exI [of _ "ev1 @ ev2"])
    apply (intro conjI)
        apply (rule run)
       apply (rule m)
      apply (rule lg)
     apply (rule gd)
    apply (rule sc)
    done
qed


theorem indexArray_prefix_witness:
  "(let s = \<lparr>items = [Item 10, Item 11, Item (12 :: nat)], mapped = [Some 0, Some 1, Some 2],
              disposers = [Some 0, Some 1, Some 2], sources = [Some 0, Some 1, Some 2],
              len = 3, pool = None, fresh = 3, ilog = []\<rparr>;
        prev = [10, 11, 12]; nxt = [10, 21, 12, 13];
        opts = \<lparr>fallback = False, poolLimit = 500\<rparr>
    in prev \<noteq> [] \<and> nxt \<noteq> [] \<and> items s = map Item prev \<and>
       length (mapped s) = length prev \<and> length (disposers s) = length prev \<and>
       length (sources s) = length prev \<and>
       (\<forall>i < length prev. sources s ! i \<noteq> None \<and> disposers s ! i \<noteq> None) \<and>
       (\<exists>s' evs. index_update opts nxt s = Inr s' \<and>
           take (min (length prev) (length nxt)) (mapped s')
             = take (min (length prev) (length nxt)) (mapped s) \<and>
           ilog s' = ilog s @ evs \<and>
           (\<forall>e\<in>set evs. good_event prev nxt s e) \<and>
           (\<forall>i < min (length prev) (length nxt). prev ! i \<noteq> nxt ! i \<longrightarrow>
              SourceCall i (the (sources s ! i)) (nxt ! i) \<in> set evs)))"
proof -
  let ?s = "\<lparr>items = [Item 10, Item 11, Item (12 :: nat)], mapped = [Some 0, Some 1, Some 2],
              disposers = [Some 0, Some 1, Some 2], sources = [Some 0, Some 1, Some 2],
              len = 3, pool = None, fresh = 3, ilog = []\<rparr>"
  let ?prev = "[10, 11, 12 :: nat]"
  let ?nxt = "[10, 21, 12, 13 :: nat]"
  have h: "?prev \<noteq> []" "?nxt \<noteq> []" "items ?s = map Item ?prev"
    "length (mapped ?s) = length ?prev" "length (disposers ?s) = length ?prev"
    "length (sources ?s) = length ?prev" by simp_all
  have d: "\<forall>i < length ?prev. sources ?s ! i \<noteq> None \<and> disposers ?s ! i \<noteq> None"
    by (simp add: less_Suc_eq eval_nat_numeral) 
  from indexArray_prefix [OF h d, of "\<lparr>fallback = False, poolLimit = 500\<rparr>"] h d
  show ?thesis unfolding Let_def by blast
qed

section \<open>Facts of the engine\<close>

lemma engine_calls:
  "e_markForDisposal (engine (Suc n)) = markForDisposal_in (engine n)"
  "e_mark (engine (Suc n)) = mark_in (engine n)"
  "e_markDownstream (engine (Suc n)) = markDownstream_in (engine n)"
  "e_obs_call (engine (Suc n)) = obs_call_in (engine n)"
  "e_event (engine (Suc n)) = event_in (engine n)"
  "e_runQueues (engine (Suc n)) = runQueues_in (engine n)"
  "e_ticks (engine (Suc n)) = ticks_in (engine n)"
  "e_queue_run (engine (Suc n)) = queue_run_in n (engine n)"
  "e_runEffects (engine (Suc n)) = runEffects_in n (engine n)"
  "e_effectsLoop (engine (Suc n)) = effectsLoop_in n (engine n)"
  "e_updateNode (engine (Suc n)) = updateNode_in (engine n)"
  "e_liftObserver (engine (Suc n)) = liftObserver_in (engine n)"
  "e_dispose (engine (Suc n)) = dispose_in (engine n)"
  by (simp_all add: engine.simps Let_def)

lemma engine_calls_numeral:
  "e_markForDisposal (engine (numeral k)) = markForDisposal_in (engine (pred_numeral k))"
  "e_mark (engine (numeral k)) = mark_in (engine (pred_numeral k))"
  "e_markDownstream (engine (numeral k)) = markDownstream_in (engine (pred_numeral k))"
  "e_obs_call (engine (numeral k)) = obs_call_in (engine (pred_numeral k))"
  "e_event (engine (numeral k)) = event_in (engine (pred_numeral k))"
  "e_runQueues (engine (numeral k)) = runQueues_in (engine (pred_numeral k))"
  "e_ticks (engine (numeral k)) = ticks_in (engine (pred_numeral k))"
  "e_queue_run (engine (numeral k)) = queue_run_in (pred_numeral k) (engine (pred_numeral k))"
  "e_runEffects (engine (numeral k)) = runEffects_in (pred_numeral k) (engine (pred_numeral k))"
  "e_effectsLoop (engine (numeral k)) = effectsLoop_in (pred_numeral k) (engine (pred_numeral k))"
  "e_updateNode (engine (numeral k)) = updateNode_in (engine (pred_numeral k))"
  "e_liftObserver (engine (numeral k)) = liftObserver_in (engine (pred_numeral k))"
  "e_dispose (engine (numeral k)) = dispose_in (engine (pred_numeral k))"
  by (simp_all only: numeral_eq_Suc engine_calls)

lemma engine_calls_1:
  "e_markForDisposal (engine 1) = markForDisposal_in (engine 0)"
  "e_mark (engine 1) = mark_in (engine 0)"
  "e_markDownstream (engine 1) = markDownstream_in (engine 0)"
  "e_obs_call (engine 1) = obs_call_in (engine 0)"
  "e_event (engine 1) = event_in (engine 0)"
  "e_runQueues (engine 1) = runQueues_in (engine 0)"
  "e_ticks (engine 1) = ticks_in (engine 0)"
  "e_queue_run (engine 1) = queue_run_in 0 (engine 0)"
  "e_runEffects (engine 1) = runEffects_in 0 (engine 0)"
  "e_effectsLoop (engine 1) = effectsLoop_in 0 (engine 0)"
  "e_updateNode (engine 1) = updateNode_in (engine 0)"
  "e_liftObserver (engine 1) = liftObserver_in (engine 0)"
  "e_dispose (engine 1) = dispose_in (engine 0)"
  by (simp_all only: One_nat_def engine_calls)

lemma engine_out:
  "e_markForDisposal (engine 0) ch p w = OutOfFuel"
  "e_mark (engine 0) m o' w = OutOfFuel"
  "e_markDownstream (engine 0) o' c d w = OutOfFuel"
  "e_obs_call (engine 0) o' w = OutOfFuel"
  "e_event (engine 0) w = OutOfFuel"
  "e_runQueues (engine 0) w = OutOfFuel"
  "e_ticks (engine 0) k w = OutOfFuel"
  "e_queue_run (engine 0) q i w = OutOfFuel"
  "e_runEffects (engine 0) w = OutOfFuel"
  "e_effectsLoop (engine 0) i a w = OutOfFuel"
  "e_updateNode (engine 0) o' w = OutOfFuel"
  "e_liftObserver (engine 0) o' w = OutOfFuel"
  "e_dispose (engine 0) o' w = OutOfFuel"
  by (simp_all add: engine.simps)

lemma lookup_numeral:
  "lookup (numeral k) w None = Some None"
  "lookup (numeral k) w (Some x) =
     (case o_ctx (w_obs w x) of
        Some (Some fns) \<Rightarrow> Some (Some fns)
      | _ \<Rightarrow> (case o_owner (w_obs w x) of
                None \<Rightarrow> Some None
              | Some p \<Rightarrow> lookup (pred_numeral k) w (Some p)))"
  by (simp_all add: numeral_eq_Suc)

lemmas fuel = engine_calls engine_calls_numeral engine_calls_1 engine_out lookup_numeral

lemmas engine_fns =
  updateNode_def obs_call_def Queue_run_def event_def runQueues_def mark_def

lemmas engine_bodies =
  markForDisposal_in.simps stalePendingEffect_def getStateFn_def schedule_def
  prepareDownstream_def mark_in_def markEach.simps markObservers_def markDownstream_in_def
  applyDataChange_def savePendingEffects_def new_sub_def src_current_def src_next_def
  src_write_def src_lock_def src_unlock_def exec.simps runAll.simps runCleanups.simps
  handleError_def disconnectAll.simps lift_sum_def disposeEach.simps disconnect_def
  dispose_in_def runObserver_def updateNode_in_def liftDeps.simps applyUpstream_def
  liftObserver_in_def obs_call_in_def queue_fn_def take_item_def queue_run_in_def try_update_def effectsPass.simps
  afterPass.simps effectsLoop_in_def runEffects_in_def ticks_in_def runQueues_in_def
  event_in_def

lemmas heap_ops =
  bindR_def obs_upd_def src_upd_def sub_upd_def log_event_def get_queue_def set_queue_def
  queue_push_def enqueue_def arr_def connect_def sub_disconnect_def resetObserver_def
  isPendingEffect_def lookup.simps assign_def set_at_def get_at_def isEffect_def outcome_def
  after_def
  Observer_new_def Source_new_def SourceSub_new_def Queue_new_def initial_def idle_def self_graph_def pair_graph_def tri_graph_def

subsection \<open>Reading an observer that is running\<close>

text \<open>
  C7, as amended. An observer is in the state \<open>Running\<close> while its function runs. A read
  of it through its readable raises \<open>CircularDependency\<close> when its age is the current
  time (it was marked in this tick) and an observer is listening (\<open>$$Observer\<close> is not
  \<open>null\<close>, so the read is not inside \<open>untrack\<close>); the world is left as it was.
\<close>

theorem self_read_raises:
  assumes "o_state (w_obs w o') = Running'"
    and "o_age (w_obs w o') = w_Time w"
    and "w_Observer w \<noteq> None"
  shows "obs_call (Suc n) o' w = Raised CircularDependency w"
proof -
  from assms(3) obtain l where l: "w_Observer w = Some l" by auto
  show ?thesis
    unfolding obs_call_def engine_calls obs_call_in_def
    by (simp add: assms(1,2) l bindR_def state_defs)
qed

theorem self_read_raises_witness:
  "o_state (w_obs w_running 1) = Running' \<and> o_age (w_obs w_running 1) = w_Time w_running
     \<and> w_Observer w_running \<noteq> None
     \<and> obs_call (Suc 0) 1 w_running = Raised CircularDependency w_running"
  using self_read_raises [of w_running 1 0]
  by (simp add: w_running_def w_circular_def heap_ops)

text \<open>
  A write of 6 to the source of \<open>w_circular\<close> runs the memo, whose read of itself raises
  the error; without a handler it is raised from the write.
\<close>

lemma tracked_self_read_run:
  "outcome (src_write (engine 12) 0 (\<lambda>v. 6) w_circular)
     = Some (Some CircularDependency, [Committed 0 6, FnCalled 1])"
  unfolding w_circular_def
  by (simp add: fuel engine_bodies heap_ops state_defs Let_def)

text \<open>
  The same read inside \<open>untrack\<close>: a write of 5 to the source of \<open>w_self\<close> runs the memo,
  whose read of itself returns the value 7 that it holds; the function returns 13.
\<close>

theorem untracked_self_read_returns:
  "outcome (src_write (engine 12) 0 (\<lambda>v. 6) w_self)
     = Some (None, [Committed 0 6, FnCalled 1, Returned 1 13])"
  unfolding w_self_def
  by (simp add: fuel engine_bodies heap_ops state_defs Let_def)

subsection \<open>The flush of a queue\<close>

lemma queue_get_set: "get_queue q (set_queue q v w) = v"
  by (cases q) (simp_all add: get_queue_def set_queue_def)

lemma flush_size:
  "e_queue_run (engine n) q i w = Done u w' \<Longrightarrow> queue_size (get_queue q w') = 0"
proof (induction n arbitrary: i w)
  case 0
  then show ?case by (simp add: engine_out)
next
  case (Suc n)
  show ?case
  proof (cases "i < queue_size (get_queue q w)")
    case False
    with Suc.prems show ?thesis
      by (auto simp add: engine_calls queue_run_in_def queue_get_set)
  next
    case True
    define r where
      "r = (case get_at (queue_items (get_queue q w)) i of
              None \<Rightarrow> Raised JsTypeError (take_item q i w)
            | Some x \<Rightarrow> queue_fn (engine n) q x (take_item q i w))"
    from Suc.prems True have run:
      "(case r of
          Done u w2 \<Rightarrow> e_queue_run (engine n) q (i + 1) w2
        | Raised e w2 \<Rightarrow>
            bindR (handleError n (engine n) e w2) (\<lambda>u. e_queue_run (engine n) q (i + 1))
        | OutOfFuel \<Rightarrow> OutOfFuel) = Done u w'"
      by (simp add: engine_calls queue_run_in_def r_def)
    show ?thesis
    proof (cases r)
      case (Done a w2)
      with run show ?thesis by (auto intro: Suc.IH)
    next
      case (Raised e w2)
      with run show ?thesis
        by (cases "handleError n (engine n) e w2") (auto simp add: bindR_def intro: Suc.IH)
    next
      case OutOfFuel
      with run show ?thesis by simp
    qed
  qed
qed

text \<open>
  C9, as amended. When the function of the queue throws on the item \<open>i\<close> and
  \<open>handleError\<close> finds a handler and returns, the flush goes on with the item \<open>i + 1\<close>
  from the world that the handlers leave; and when the flush returns, the size of the
  queue is 0.
\<close>

theorem flush_isolation:
  assumes "i < queue_size (get_queue q w)"
    and "get_at (queue_items (get_queue q w)) i = Some x"
    and "queue_fn (engine n) q x (take_item q i w) = Raised e w2"
    and "handleError n (engine n) e w2 = Done () w3"
  shows "Queue_run (Suc n) q i w = Queue_run n q (i + 1) w3
     \<and> (\<forall>w'. Queue_run n q (i + 1) w3 = Done () w' \<longrightarrow> queue_size (get_queue q w') = 0)"
proof -
  have "Queue_run (Suc n) q i w = Queue_run n q (i + 1) w3"
    unfolding Queue_run_def engine_calls queue_run_in_def
    by (simp add: assms bindR_def)
  moreover have "\<forall>w'. Queue_run n q (i + 1) w3 = Done () w' \<longrightarrow> queue_size (get_queue q w') = 0"
    unfolding Queue_run_def by (blast intro: flush_size)
  ultimately show ?thesis by blast
qed

text \<open>
  In \<open>w_flush\<close> the first memo throws, the handler of the root is called, and the flush
  goes on with the second memo.
\<close>

lemma w_flush_steps:
  "queue_size (get_queue QUpdates w_flush) = 2"
  "get_at (queue_items (get_queue QUpdates w_flush)) 0 = Some 1"
  "outcome (queue_fn (engine 6) QUpdates 1 (take_item QUpdates 0 w_flush))
     = Some (Some (Thrown ()), [Committed 0 6, FnCalled 1])"
  "outcome (Queue_run 7 QUpdates 0 w_flush)
     = Some (None, [Committed 0 6, FnCalled 1, HandlerCalled 0 (Thrown ()), FnCalled 2,
                    Returned 2 7])"
  unfolding w_flush_def w_handled_def Queue_run_def
  by (simp_all add: fuel engine_bodies heap_ops state_defs Let_def)

theorem flush_isolation_witness:
  "0 < queue_size (get_queue QUpdates w_flush)
     \<and> get_at (queue_items (get_queue QUpdates w_flush)) 0 = Some 1
     \<and> queue_fn (engine 6) QUpdates 1 (take_item QUpdates 0 w_flush)
           = Raised (Thrown ())
               (after (queue_fn (engine 6) QUpdates 1 (take_item QUpdates 0 w_flush)) idle)
     \<and> Queue_run (Suc 6) QUpdates 0 w_flush
           = Queue_run 6 QUpdates (0 + 1)
               (after (handleError 6 (engine 6) (Thrown ())
                         (after (queue_fn (engine 6) QUpdates 1 (take_item QUpdates 0 w_flush))
                            idle)) idle)"
proof -
  let ?w2 = "after (queue_fn (engine 6) QUpdates 1 (take_item QUpdates 0 w_flush)) idle"
  let ?w3 = "after (handleError 6 (engine 6) (Thrown ()) ?w2) idle"
  have 1: "0 < queue_size (get_queue QUpdates w_flush)"
    by (simp add: w_flush_steps)
  have 2: "get_at (queue_items (get_queue QUpdates w_flush)) 0 = Some 1"
    by (simp add: w_flush_steps)
  have 3: "queue_fn (engine 6) QUpdates 1 (take_item QUpdates 0 w_flush) = Raised (Thrown ()) ?w2"
    using w_flush_steps(3)
    by (cases "queue_fn (engine 6) QUpdates 1 (take_item QUpdates 0 w_flush)")
       (simp_all add: outcome_def after_def)
  have 4: "handleError 6 (engine 6) (Thrown ()) ?w2 = Done () ?w3"
    unfolding w_flush_def w_handled_def Queue_run_def
    by (simp add: fuel engine_bodies heap_ops state_defs Let_def)
  from flush_isolation [OF 1 2 3 4] 1 2 3 show ?thesis by blast
qed

text \<open>
  Without a handler the error of the first memo is raised from the write: the flush
  is left, the second memo is not run, and the size of the queue stays 2.
\<close>

theorem unhandled_error_leaves_flush:
  "outcome (src_write (engine 12) 0 (\<lambda>v. 6) w_unhandled)
     = Some (Some (Thrown ()), [Committed 0 6, FnCalled 1])
   \<and> queue_size (w_Updates (after (src_write (engine 12) 0 (\<lambda>v. 6) w_unhandled) idle)) = 2"
  unfolding w_unhandled_def
  by (simp add: fuel engine_bodies heap_ops state_defs Let_def)

subsection \<open>A recomputed value that is equal to the last one\<close>





subsection \<open>Locked sources\<close>

text \<open>
  A write to a locked source stages the value, or leaves the world as it is when the
  equality of the source says that the value is the staged one; a read gives the
  committed value. So any number of writes leave all but the staged value as it was.
\<close>

lemma stage_same: "src_upd s (\<lambda>r. r\<lparr>src_pending := src_pending (w_src w s)\<rparr>) w = w"
  by (simp add: src_upd_def)

lemma locked_write:
  assumes "src_locked (w_src w s) > 0"
  shows "\<exists>p v. src_write E s f w = Done v (src_upd s (\<lambda>r. r\<lparr>src_pending := p\<rparr>) w)"
proof -
  define l where
    "l = (case src_pending (w_src w s) of None \<Rightarrow> src_value (w_src w s) | Some p \<Rightarrow> p)"
  have "src_write E s f w = Done (f l) (src_upd s (\<lambda>r. r\<lparr>src_pending := Some (f l)\<rparr>) w)
      \<or> src_write E s f w = Done l w"
    using assms by (simp add: src_write_def src_next_def Let_def l_def)
  then show ?thesis
  proof
    assume "src_write E s f w = Done (f l) (src_upd s (\<lambda>r. r\<lparr>src_pending := Some (f l)\<rparr>) w)"
    then show ?thesis by (intro exI)
  next
    assume "src_write E s f w = Done l w"
    then have
      "src_write E s f w = Done l (src_upd s (\<lambda>r. r\<lparr>src_pending := src_pending (w_src w s)\<rparr>) w)"
      by (simp only: stage_same)
    then show ?thesis by (intro exI)
  qed
qed

lemma locked_writes_stage_only:
  assumes "src_locked (w_src w s) > 0"
  shows "\<exists>p. writes E s fs w = Done () (src_upd s (\<lambda>r. r\<lparr>src_pending := p\<rparr>) w)"
  using assms
proof (induction fs arbitrary: w)
  case Nil
  have "writes E s [] w = Done () (src_upd s (\<lambda>r. r\<lparr>src_pending := src_pending (w_src w s)\<rparr>) w)"
    by (simp only: stage_same writes.simps)
  then show ?case by (intro exI)
next
  case (Cons f fs)
  from locked_write [OF Cons.prems] obtain p v where
    1: "src_write E s f w = Done v (src_upd s (\<lambda>r. r\<lparr>src_pending := p\<rparr>) w)" by blast
  let ?w1 = "src_upd s (\<lambda>r. r\<lparr>src_pending := p\<rparr>) w"
  have "src_locked (w_src ?w1 s) > 0"
    using Cons.prems by (simp add: src_upd_def)
  from Cons.IH [OF this] obtain p' where
    2: "writes E s fs ?w1 = Done () (src_upd s (\<lambda>r. r\<lparr>src_pending := p'\<rparr>) ?w1)" by blast
  have "src_upd s (\<lambda>r. r\<lparr>src_pending := p'\<rparr>) ?w1 = src_upd s (\<lambda>r. r\<lparr>src_pending := p'\<rparr>) w"
    by (simp add: src_upd_def)
  with 1 2 have "writes E s (f # fs) w = Done () (src_upd s (\<lambda>r. r\<lparr>src_pending := p'\<rparr>) w)"
    by (simp add: bindR_def)
  then show ?case by (intro exI)
qed

lemma read_gives_committed:
  "fst (src_current s (src_upd s (\<lambda>r. r\<lparr>src_pending := p\<rparr>) w)) = src_value (w_src w s)"
  by (simp add: src_current_def src_upd_def new_sub_def sub_upd_def connect_def obs_upd_def Let_def
      split: option.splits prod.splits)

text \<open>
  With the lock taken before any write, the writes of a batch are committed once, with
  the last value, and the three memos of \<open>tri_graph\<close> are run.
\<close>

lemma locked_writes_commit_once:
  "outcome (batch 12 locked_writes tri_graph)
     = Some (None, [Committed 0 8, FnCalled 1, Returned 1 0, FnCalled 2, Returned 2 10,
                    FnCalled 3, Returned 3 8])"
  unfolding tri_graph_def locked_writes_def batch_def
  by (simp add: fuel engine_bodies heap_ops state_defs Let_def)

text \<open>
  C5. With a write to the source before the lock, in the same batch, the staged value
  is not committed when the lock count is back at 0. \<open>lock\<close> takes the source out of the
  queue of changes with \<open>Queue.remove\<close>, which leaves the size of the queue; the flush
  at the end of the batch then reads a place of the queue that holds no source, and the
  \<open>TypeError\<close> is raised from \<open>batch\<close>. The source still holds 5, the value 7 stays
  staged, and no memo has been run.
\<close>

theorem lock_after_write_is_not_committed:
  "outcome (batch 12 write_then_lock tri_graph) = Some (Some JsTypeError, [])
   \<and> src_value (w_src (after (batch 12 write_then_lock tri_graph) idle) 0) = 5
   \<and> src_pending (w_src (after (batch 12 write_then_lock tri_graph) idle) 0) = Some 7
   \<and> src_locked (w_src (after (batch 12 write_then_lock tri_graph) idle) 0) = 0"
  unfolding tri_graph_def write_then_lock_def batch_def
  by (simp add: fuel engine_bodies heap_ops state_defs Let_def splice_def indexOf_def)


subsection \<open>The values of the observers\<close>




lemma view_obs_upd [simp]:
  "(\<And>t. o_value (f t) = o_value t) \<Longrightarrow> view (obs_upd k f w) = view w"
  by (auto simp add: view_def obs_upd_def fun_eq_iff)

lemma view_silent [simp]:
  "view (src_upd s g w) = view w"
  "view (sub_upd b h w) = view w"
  "view (w_src_update f1 w) = view w"
  "view (w_sub_update f2 w) = view w"
  "view (w_nextSub_update f3 w) = view w"
  "view (w_Observer_update f4 w) = view w"
  "view (w_Owner_update f5 w) = view w"
  "view (w_Pending_update f6 w) = view w"
  "view (w_Time_update f7 w) = view w"
  "view (w_IsRunning_update f8 w) = view w"
  "view (w_PendingEffects_update f9 w) = view w"
  "view (w_Changes_update fa w) = view w"
  "view (w_Updates_update fb w) = view w"
  "view (w_Disposes_update fc w) = view w"
  "view (w_Effects_update fd w) = view w"
  by (simp_all add: view_def src_upd_def sub_upd_def)

lemma view_queue [simp]:
  "view (set_queue q v w) = view w"
  "view (enqueue q k w) = view w"
  "view (take_item q i w) = view w"
  "view (schedule k w) = view w"
  "view (savePendingEffects w) = view w"
  "view (resetObserver k fl w) = view w"
  "view (src_lock s w) = view w"
  "view (snd (new_sub w)) = view w"
  by (simp_all add: set_queue_def enqueue_def take_item_def schedule_def savePendingEffects_def
      resetObserver_def src_lock_def new_sub_def Let_def split: qname.splits)

lemma view_connect [simp]: "view (connect b to w) = view w"
  by (simp add: connect_def Let_def split: option.splits)





lemma keeps_simps [simp]:
  "keeps w (Done a w') = vrel (view w) (view w')"
  "keeps w (Raised e w') = vrel (view w) (view w')"
  "keeps w OutOfFuel"
  by (simp_all add: keeps_def)












































subsection \<open>An observer whose function throws\<close>







end
